theory Spec2Isabelle
  imports Main
begin

section \<open>Python strings\<close>

text \<open>
  A Python string is a sequence of Unicode code points; \<open>len\<close> counts them. A
  literal of the source is written \<open>str ''...''\<close>.
\<close>

type_synonym pystr = "nat list"

definition str :: "string \<Rightarrow> pystr" where
  "str s = map of_char s"

definition ascii_uppercase :: pystr where
  "ascii_uppercase = str ''ABCDEFGHIJKLMNOPQRSTUVWXYZ''"

definition digits :: pystr where
  "digits = str ''0123456789''"

text \<open>
  \<open>str.upper\<close> maps every character on its own to its upper-case form, which can be
  several characters long. On ASCII the form is spelled out: a lower-case letter goes
  to the letter 32 positions below, any other character stays. Outside ASCII the form
  is read from the case mapping table of the Unicode database that comes with the
  Python runtime. The table is not part of the repository, so it is a parameter, of
  the type \<open>case_table\<close>. A table of that type has the one property of the Unicode
  table that the service relies on: upper-casing an upper-case form leaves it as it
  is.
\<close>

definition ascii_upper :: "nat \<Rightarrow> nat" where
  "ascii_upper c = (if 97 \<le> c \<and> c \<le> 122 then c - 32 else c)"

definition upper_with :: "(nat \<Rightarrow> pystr) \<Rightarrow> nat \<Rightarrow> pystr" where
  "upper_with table c = (if c < 128 then [ascii_upper c] else table c)"

typedef case_table =
  "{table :: nat \<Rightarrow> pystr.
      \<forall>c. 128 \<le> c \<longrightarrow> concat (map (upper_with table) (table c)) = table c}"
  by (rule exI [of _ "\<lambda>c. [c]"]) (simp add: upper_with_def)

setup_lifting type_definition_case_table

definition upper :: "case_table \<Rightarrow> pystr \<Rightarrow> pystr" where
  "upper U s = concat (map (upper_with (Rep_case_table U)) s)"

text \<open>
  A table with two entries of the Unicode one, \<open>e\<close> with acute accent (233) to
  \<open>E\<close> with acute accent (201) and sharp s (223) to \<open>SS\<close>, and every other
  character unchanged; it serves to evaluate the service on concrete requests.
\<close>

lift_definition sample_table :: case_table
  is "\<lambda>c. if c = 233 then [201] else if c = 223 then [83, 83] else [c]"
  by (simp add: upper_with_def ascii_upper_def)

text \<open>\<open>s.endswith(suffix)\<close>.\<close>

definition endswith :: "pystr \<Rightarrow> pystr \<Rightarrow> bool" where
  "endswith s suffix =
     (length suffix \<le> length s \<and> drop (length s - length suffix) s = suffix)"

text \<open>
  The column operator \<open>startswith(prefix)\<close> of the query builder is rendered as
  \<open>column LIKE prefix || '%'\<close>, and the prefix is not escaped: in it \<open>%\<close> (37)
  stands for any run of characters and \<open>_\<close> (95) for any one character. Every other
  character of the pattern has to be met as it is. The prefix that the lookup of a
  headquarters passes is cut from a stored code and has neither of the two.
\<close>

fun sql_like :: "pystr \<Rightarrow> pystr \<Rightarrow> bool" where
  "sql_like [] s = (s = [])"
| "sql_like (p # ps) s =
     (if p = 37 then list_ex (\<lambda>k. sql_like ps (drop k s)) [0..<Suc (length s)]
      else (case s of
              [] \<Rightarrow> False
            | c # cs \<Rightarrow> (p = 95 \<or> p = c) \<and> sql_like ps cs))"

definition startswith :: "pystr \<Rightarrow> pystr \<Rightarrow> bool" where
  "startswith s prefix = sql_like (prefix @ [37]) s"

text \<open>
  \<open>re.fullmatch(r"^[A-Z0-9]+$", value)\<close> and \<open>re.fullmatch(r"^[A-Z]{2}$", value)\<close>:
  the whole string has to be consumed, so the match is a test on every character.
\<close>

definition fullmatch_upper_alnum :: "pystr \<Rightarrow> bool" where
  "fullmatch_upper_alnum v =
     (v \<noteq> [] \<and> list_all (\<lambda>c. c \<in> set (ascii_uppercase @ digits)) v)"

definition fullmatch_upper_alpha2 :: "pystr \<Rightarrow> bool" where
  "fullmatch_upper_alpha2 v =
     (length v = 2 \<and> list_all (\<lambda>c. c \<in> set ascii_uppercase) v)"


section \<open>models.py: the table \<open>swift_codes\<close>\<close>

record SwiftCode =
  swift_code :: pystr
  bank_name :: pystr
  address :: "pystr option"
  country_iso2 :: pystr
  country_name :: pystr
  is_headquarter :: bool

text \<open>
  A session is the content of the table, as the list of its rows in the order in
  which the storage engine yields them to a query that carries no ordering clause
  (no query of \<open>crud.py\<close> has one). \<open>first()\<close> takes the head of that list,
  \<open>offset\<close> and \<open>limit\<close> cut it, \<open>all()\<close> returns it.
\<close>

type_synonym Session = "SwiftCode list"

text \<open>
  A commit either goes through or raises. A duplicate primary key raises
  \<open>IntegrityError\<close>, which the table content decides; any other failure of the
  storage layer is an outcome chosen by the environment.
\<close>

datatype commit_outcome = Committed | StorageFault

text \<open>
  \<open>OFFSET\<close> and \<open>LIMIT\<close> are 64-bit signed integers for the driver and for the
  engine; handing over a larger number raises when the query is executed.
\<close>

datatype DBAPIError = integer_out_of_range


section \<open>schemas.py\<close>

datatype ValidationError =
    string_too_short
  | string_too_long
  | ValueError pystr

text \<open>
  \<open>SwiftCodeCreate\<close>: the fields of \<open>SwiftCodeBase\<close> and the optional flag. The same
  record holds the keyword arguments (or JSON body) before validation and the schema
  object after it.
\<close>

record SwiftCodeCreate =
  swift_code_in :: pystr
  bank_name_in :: pystr
  address_in :: "pystr option"
  country_iso2_in :: pystr
  country_name_in :: pystr
  is_headquarter_in :: "bool option"

text \<open>\<open>Field(..., min_length=, max_length=)\<close> on a string.\<close>

definition Field_length :: "nat \<Rightarrow> nat \<Rightarrow> pystr \<Rightarrow> ValidationError + pystr" where
  "Field_length min_length max_length v =
     (if length v < min_length then Inl string_too_short
      else if max_length < length v then Inl string_too_long
      else Inr v)"

definition check_swift_code_chars_and_length :: "pystr \<Rightarrow> ValidationError + pystr" where
  "check_swift_code_chars_and_length v =
     (if \<not> (length v = 8 \<or> length v = 11)
        then Inl (ValueError (str ''SWIFT code must be 8 or 11 characters long''))
      else if \<not> fullmatch_upper_alnum v
        then Inl (ValueError
          (str ''SWIFT code must contain only uppercase letters (A-Z) and digits (0-9)''))
      else Inr v)"

definition check_country_iso2_format :: "pystr \<Rightarrow> ValidationError + pystr" where
  "check_country_iso2_format v =
     (if length v \<noteq> 2
        then Inl (ValueError (str ''Country ISO2 code must be 2 characters long''))
      else if \<not> fullmatch_upper_alpha2 v
        then Inl (ValueError
          (str ''Country ISO2 code must contain only uppercase letters (A-Z)''))
      else Inr v)"

text \<open>The \<open>mode="before"\<close> validator of \<open>country_iso2\<close> and \<open>country_name\<close>.\<close>

definition convert_to_uppercase :: "case_table \<Rightarrow> pystr \<Rightarrow> pystr" where
  "convert_to_uppercase U v = upper U v"

text \<open>
  Validation of one field: the \<open>before\<close> validators, then the constraints of the
  \<open>Field\<close>, then the other validators. Only the two country fields have a
  \<open>before\<close> validator; \<open>swift_code\<close> is checked as it was supplied.
\<close>

definition validate_swift_code :: "pystr \<Rightarrow> ValidationError + pystr" where
  "validate_swift_code v =
     (case Field_length 8 11 v of
        Inl e \<Rightarrow> Inl e
      | Inr v1 \<Rightarrow> check_swift_code_chars_and_length v1)"

definition validate_country_iso2 :: "case_table \<Rightarrow> pystr \<Rightarrow> ValidationError + pystr" where
  "validate_country_iso2 U v =
     (case Field_length 2 2 (convert_to_uppercase U v) of
        Inl e \<Rightarrow> Inl e
      | Inr v1 \<Rightarrow> check_country_iso2_format v1)"

definition validate_country_name :: "case_table \<Rightarrow> pystr \<Rightarrow> ValidationError + pystr" where
  "validate_country_name U v = Inr (convert_to_uppercase U v)"

text \<open>
  Building a \<open>SwiftCodeCreate\<close>. Pydantic reports the errors of all fields at once;
  the model keeps the first, which leaves acceptance unchanged.
\<close>

definition SwiftCodeCreate_validate :: "case_table \<Rightarrow> SwiftCodeCreate \<Rightarrow> ValidationError + SwiftCodeCreate" where
  "SwiftCodeCreate_validate U kw =
     (case validate_swift_code (swift_code_in kw) of
        Inl e \<Rightarrow> Inl e
      | Inr sc \<Rightarrow>
          (case validate_country_iso2 U (country_iso2_in kw) of
             Inl e \<Rightarrow> Inl e
           | Inr cc \<Rightarrow>
               (case validate_country_name U (country_name_in kw) of
                  Inl e \<Rightarrow> Inl e
                | Inr name \<Rightarrow>
                    Inr (kw\<lparr>swift_code_in := sc, country_iso2_in := cc,
                             country_name_in := name\<rparr>))))"

text \<open>
  \<open>schemas.SwiftCode.model_validate(row)\<close> reads the attributes of a row and runs the
  validators of \<open>SwiftCodeBase\<close> on them.
\<close>

definition SwiftCode_model_validate :: "case_table \<Rightarrow> SwiftCode \<Rightarrow> ValidationError + SwiftCode" where
  "SwiftCode_model_validate U row =
     (case validate_swift_code (swift_code row) of
        Inl e \<Rightarrow> Inl e
      | Inr sc \<Rightarrow>
          (case validate_country_iso2 U (country_iso2 row) of
             Inl e \<Rightarrow> Inl e
           | Inr cc \<Rightarrow>
               (case validate_country_name U (country_name row) of
                  Inl e \<Rightarrow> Inl e
                | Inr name \<Rightarrow>
                    Inr (row\<lparr>swift_code := sc, country_iso2 := cc,
                              country_name := name\<rparr>))))"

text \<open>\<open>SwiftCodeBranch\<close> has no validator and no \<open>country_name\<close>.\<close>

record SwiftCodeBranch =
  branch_swift_code :: pystr
  branch_bank_name :: pystr
  branch_address :: "pystr option"
  branch_country_iso2 :: pystr
  branch_is_headquarter :: bool

definition SwiftCodeBranch_model_validate :: "SwiftCode \<Rightarrow> SwiftCodeBranch" where
  "SwiftCodeBranch_model_validate row =
     \<lparr>branch_swift_code = swift_code row,
      branch_bank_name = bank_name row,
      branch_address = address row,
      branch_country_iso2 = country_iso2 row,
      branch_is_headquarter = is_headquarter row\<rparr>"

record SwiftCodeCountryList =
  list_country_iso2 :: pystr
  list_country_name :: pystr
  swift_codes :: "SwiftCode list"


section \<open>crud.py\<close>

definition get_swift_by_code :: "case_table \<Rightarrow> Session \<Rightarrow> pystr \<Rightarrow> SwiftCode option" where
  "get_swift_by_code U db code = find (\<lambda>r. swift_code r = upper U code) db"

text \<open>
  \<open>skip\<close> and \<open>limit\<close> are natural numbers: the router admits \<open>skip \<ge> 0\<close> and
  \<open>1 \<le> limit \<le> 1000\<close> only. A number from \<open>2^63 = 9223372036854775808\<close> on does
  not fit the query, and executing it raises.
\<close>

definition get_swifts_by_country :: "case_table \<Rightarrow> Session \<Rightarrow> pystr \<Rightarrow> nat \<Rightarrow> nat \<Rightarrow> DBAPIError + SwiftCode list" where
  "get_swifts_by_country U db country skip limit =
     (if 9223372036854775808 \<le> skip \<or> 9223372036854775808 \<le> limit
        then Inl integer_out_of_range
      else Inr (take limit (drop skip (filter (\<lambda>r. country_iso2 r = upper U country) db))))"

definition get_branches_by_hq_prefix :: "case_table \<Rightarrow> Session \<Rightarrow> pystr \<Rightarrow> SwiftCode list" where
  "get_branches_by_hq_prefix U db hq_prefix =
     (if length hq_prefix \<noteq> 8 then []
      else filter (\<lambda>r. startswith (swift_code r) (upper U hq_prefix)
                        \<and> is_headquarter r = False) db)"

text \<open>
  \<open>create_swift\<close> returns the new row, or \<open>None\<close> when the commit raised: on a
  duplicate primary key and on any other fault alike. A rolled-back session is the
  session as it was.
\<close>

definition create_swift :: "case_table \<Rightarrow> commit_outcome \<Rightarrow> Session \<Rightarrow> SwiftCodeCreate \<Rightarrow> SwiftCode option \<times> Session" where
  "create_swift U commit db swift =
     (let is_hq = endswith (upper U (swift_code_in swift)) (str ''XXX'');
          db_swift = \<lparr>swift_code = upper U (swift_code_in swift),
                      bank_name = bank_name_in swift,
                      address = address_in swift,
                      country_iso2 = upper U (country_iso2_in swift),
                      country_name = upper U (country_name_in swift),
                      is_headquarter = is_hq\<rparr>
      in if list_ex (\<lambda>r. swift_code r = swift_code db_swift) db then (None, db)
         else (case commit of
                 Committed \<Rightarrow> (Some db_swift, db @ [db_swift])
               | StorageFault \<Rightarrow> (None, db)))"

definition delete_swift :: "case_table \<Rightarrow> commit_outcome \<Rightarrow> Session \<Rightarrow> pystr \<Rightarrow> SwiftCode option \<times> Session" where
  "delete_swift U commit db code =
     (case get_swift_by_code U db code of
        Some db_swift \<Rightarrow>
          (case commit of
             Committed \<Rightarrow>
               (Some db_swift, filter (\<lambda>r. swift_code r \<noteq> swift_code db_swift) db)
           | StorageFault \<Rightarrow> (None, db))
      | None \<Rightarrow> (None, db))"


section \<open>routers/swift_codes.py\<close>

datatype HTTPException =
    HTTP_400_BAD_REQUEST pystr
  | HTTP_404_NOT_FOUND pystr
  | HTTP_422_UNPROCESSABLE_ENTITY
  | HTTP_500_INTERNAL_SERVER_ERROR pystr

text \<open>
  The path patterns \<open>^([A-Z0-9]{8}|[A-Z0-9]{11})$\<close> and \<open>^[A-Z]{2}$\<close>; a path
  parameter that does not match is answered with status 422 before the handler runs.
\<close>

definition SWIFT_CODE_PATTERN :: "pystr \<Rightarrow> bool" where
  "SWIFT_CODE_PATTERN v =
     ((length v = 8 \<or> length v = 11)
      \<and> list_all (\<lambda>c. c \<in> set (ascii_uppercase @ digits)) v)"

definition COUNTRY_CODE_PATTERN :: "pystr \<Rightarrow> bool" where
  "COUNTRY_CODE_PATTERN v = fullmatch_upper_alpha2 v"

text \<open>
  The two shapes of a reply to a lookup by code: the dictionary of a headquarters with
  its \<open>branches\<close> key, or the plain record, which has no such key.
\<close>

datatype code_response =
    Headquarter_with_branches SwiftCode "SwiftCodeBranch list"
  | Plain_record SwiftCode

text \<open>
  A row that fails \<open>model_validate\<close> while the reply is built, or a query that
  raises, is an exception that no handler catches; the framework answers it with
  status 500.
\<close>

definition response_error :: HTTPException where
  "response_error = HTTP_500_INTERNAL_SERVER_ERROR (str ''Internal Server Error'')"

fun model_validate_all :: "case_table \<Rightarrow> SwiftCode list \<Rightarrow> ValidationError + SwiftCode list" where
  "model_validate_all U [] = Inr []"
| "model_validate_all U (code # codes) =
     (case SwiftCode_model_validate U code of
        Inl e \<Rightarrow> Inl e
      | Inr v \<Rightarrow>
          (case model_validate_all U codes of
             Inl e \<Rightarrow> Inl e
           | Inr vs \<Rightarrow> Inr (v # vs)))"

definition read_swift_code :: "case_table \<Rightarrow> Session \<Rightarrow> pystr \<Rightarrow> HTTPException + code_response" where
  "read_swift_code U db code =
     (if \<not> SWIFT_CODE_PATTERN code then Inl HTTP_422_UNPROCESSABLE_ENTITY
      else
        (case get_swift_by_code U db code of
           None \<Rightarrow> Inl (HTTP_404_NOT_FOUND (str ''SWIFT code not found''))
         | Some db_swift \<Rightarrow>
             if is_headquarter db_swift then
               (let hq_prefix = take 8 (swift_code db_swift);
                    branches_models = get_branches_by_hq_prefix U db hq_prefix;
                    branches_schemas = map SwiftCodeBranch_model_validate branches_models
                in case SwiftCode_model_validate U db_swift of
                     Inl e \<Rightarrow> Inl response_error
                   | Inr hq_response_base \<Rightarrow>
                       Inr (Headquarter_with_branches hq_response_base branches_schemas))
             else
               (case SwiftCode_model_validate U db_swift of
                  Inl e \<Rightarrow> Inl response_error
                | Inr v \<Rightarrow> Inr (Plain_record v))))"

definition read_swifts_by_country :: "case_table \<Rightarrow> Session \<Rightarrow> pystr \<Rightarrow> int \<Rightarrow> int \<Rightarrow> HTTPException + SwiftCodeCountryList" where
  "read_swifts_by_country U db country_iso2_code skip limit =
     (if \<not> (COUNTRY_CODE_PATTERN country_iso2_code \<and> 0 \<le> skip \<and> 1 \<le> limit \<and> limit \<le> 1000)
        then Inl HTTP_422_UNPROCESSABLE_ENTITY
      else
        (let country_code_upper = upper U country_iso2_code
         in case get_swifts_by_country U db country_code_upper (nat skip) (nat limit) of
              Inl e \<Rightarrow> Inl response_error
            | Inr swift_codes_models \<Rightarrow>
                (case swift_codes_models of
                   first_model # _ \<Rightarrow>
                     (case model_validate_all U swift_codes_models of
                        Inl e \<Rightarrow> Inl response_error
                      | Inr validated_codes \<Rightarrow>
                          Inr \<lparr>list_country_iso2 = country_code_upper,
                               list_country_name = country_name first_model,
                               swift_codes = validated_codes\<rparr>)
                 | [] \<Rightarrow>
                     (case find (\<lambda>r. country_iso2 r = country_code_upper) db of
                        Some any_code_for_country \<Rightarrow>
                          Inr \<lparr>list_country_iso2 = country_code_upper,
                               list_country_name = country_name any_code_for_country,
                               swift_codes = []\<rparr>
                      | None \<Rightarrow>
                          Inl (HTTP_404_NOT_FOUND
                                 (str ''Country ISO2 code not found in database''))))))"

definition quoted :: "pystr \<Rightarrow> pystr" where
  "quoted s = [39] @ s @ [39]"

definition create_swift_code :: "case_table \<Rightarrow> commit_outcome \<Rightarrow> Session \<Rightarrow> SwiftCodeCreate \<Rightarrow> (HTTPException + pystr) \<times> Session" where
  "create_swift_code U commit db body =
     (case SwiftCodeCreate_validate U body of
        Inl e \<Rightarrow> (Inl HTTP_422_UNPROCESSABLE_ENTITY, db)
      | Inr swift_data \<Rightarrow>
          (case get_swift_by_code U db (swift_code_in swift_data) of
             Some existing_swift \<Rightarrow>
               (Inl (HTTP_400_BAD_REQUEST
                  (str ''SWIFT code '' @ quoted (swift_code_in swift_data) @ str '' already exists.'')),
                db)
           | None \<Rightarrow>
               (case create_swift U commit db swift_data of
                  (None, db') \<Rightarrow>
                    (Inl (HTTP_500_INTERNAL_SERVER_ERROR
                       (str ''Could not create SWIFT code '' @ quoted (swift_code_in swift_data)
                        @ str ''. Database error occurred.'')),
                     db')
                | (Some created_swift, db') \<Rightarrow>
                    (Inr (str ''SWIFT code '' @ quoted (swift_code created_swift)
                          @ str '' created successfully.''),
                     db'))))"

definition delete_swift_code :: "case_table \<Rightarrow> commit_outcome \<Rightarrow> Session \<Rightarrow> pystr \<Rightarrow> (HTTPException + pystr) \<times> Session" where
  "delete_swift_code U commit db code =
     (if \<not> SWIFT_CODE_PATTERN code then (Inl HTTP_422_UNPROCESSABLE_ENTITY, db)
      else
        (case delete_swift U commit db code of
           (None, db') \<Rightarrow>
             (Inl (HTTP_404_NOT_FOUND (str ''SWIFT code not found or error during deletion.'')),
              db')
         | (Some deleted_swift, db') \<Rightarrow>
             (Inr (str ''SWIFT code '' @ quoted (upper U code) @ str '' deleted successfully.''),
              db')))"


section \<open>main.py: the loop of the bulk load\<close>

text \<open>
  \<open>load_data_from_file\<close> hands every dictionary of the parsed file to the same
  validation and the same \<open>create_swift\<close> as the interactive create, and counts.
  Each dictionary comes with the outcome its commit would have.
\<close>

record load_counts =
  added_count :: nat
  skipped_count :: nat
  error_count :: nat

fun load_data_loop :: "case_table \<Rightarrow> Session \<Rightarrow> load_counts \<Rightarrow> (SwiftCodeCreate \<times> commit_outcome) list \<Rightarrow> load_counts \<times> Session" where
  "load_data_loop U db cnt [] = (cnt, db)"
| "load_data_loop U db cnt ((swift_dict, commit) # swift_data_list) =
     (case SwiftCodeCreate_validate U swift_dict of
        Inl e \<Rightarrow>
          load_data_loop U db (cnt\<lparr>skipped_count := skipped_count cnt + 1\<rparr>) swift_data_list
      | Inr swift_create_schema \<Rightarrow>
          (case get_swift_by_code U db (swift_code_in swift_create_schema) of
             Some existing \<Rightarrow>
               load_data_loop U db (cnt\<lparr>skipped_count := skipped_count cnt + 1\<rparr>)
                 swift_data_list
           | None \<Rightarrow>
               (case create_swift U commit db swift_create_schema of
                  (Some created, db') \<Rightarrow>
                    load_data_loop U db' (cnt\<lparr>added_count := added_count cnt + 1\<rparr>)
                      swift_data_list
                | (None, db') \<Rightarrow>
                    load_data_loop U db' (cnt\<lparr>error_count := error_count cnt + 1\<rparr>)
                      swift_data_list)))"


section \<open>Notions used to state the properties\<close>

subsection \<open>Tables the service can reach\<close>

text \<open>
  Every row is written by \<open>create_swift\<close> from a schema that passed validation, and
  \<open>swift_code\<close> is the primary key. So the code and the country code of a stored row
  have the accepted format, the country name is in upper case, the flag is the one
  derived from the code, and no two rows share a code.
\<close>

definition wf_row :: "case_table \<Rightarrow> SwiftCode \<Rightarrow> bool" where
  "wf_row U r =
     (SWIFT_CODE_PATTERN (swift_code r)
      \<and> fullmatch_upper_alpha2 (country_iso2 r)
      \<and> upper U (country_name r) = country_name r
      \<and> is_headquarter r = endswith (swift_code r) (str ''XXX''))"

definition wf_db :: "case_table \<Rightarrow> Session \<Rightarrow> bool" where
  "wf_db U db = (list_all (wf_row U) db \<and> distinct (map swift_code db))"

definition hq_flag_derived :: "SwiftCode \<Rightarrow> bool" where
  "hq_flag_derived r = (is_headquarter r = endswith (swift_code r) (str ''XXX''))"

subsection \<open>The relationship between a headquarters and its branches\<close>

text \<open>
  The relationship in the words of the specification: \<open>B\<close> is a branch of \<open>H\<close> iff
  the code of \<open>H\<close> ends in \<open>XXX\<close>, has length 11, shares its first eight characters
  with the code of \<open>B\<close>, and \<open>B\<close> is not a headquarters.
\<close>

definition branch_of_spec :: "SwiftCode \<Rightarrow> SwiftCode \<Rightarrow> bool" where
  "branch_of_spec B H =
     (endswith (swift_code H) (str ''XXX'')
      \<and> length (swift_code H) = 11
      \<and> take 8 (swift_code B) = take 8 (swift_code H)
      \<and> is_headquarter B = False)"

definition branches_spec :: "Session \<Rightarrow> SwiftCode \<Rightarrow> SwiftCode list" where
  "branches_spec db H = filter (\<lambda>B. branch_of_spec B H) db"

text \<open>The same relationship without the condition on the length of the code of \<open>H\<close>.\<close>

definition branch_of_prefix :: "SwiftCode \<Rightarrow> SwiftCode \<Rightarrow> bool" where
  "branch_of_prefix B H =
     (endswith (swift_code H) (str ''XXX'')
      \<and> take 8 (swift_code B) = take 8 (swift_code H)
      \<and> is_headquarter B = False)"

definition branches_prefix :: "Session \<Rightarrow> SwiftCode \<Rightarrow> SwiftCode list" where
  "branches_prefix db H = filter (\<lambda>B. branch_of_prefix B H) db"

subsection \<open>Pagination windows\<close>



definition country_rows :: "case_table \<Rightarrow> Session \<Rightarrow> pystr \<Rightarrow> SwiftCode list" where
  "country_rows U db country = filter (\<lambda>r. country_iso2 r = upper U country) db"

subsection \<open>A sequence of create requests\<close>

fun create_requests :: "case_table \<Rightarrow> Session \<Rightarrow> (commit_outcome \<times> SwiftCodeCreate) list \<Rightarrow> (HTTPException + pystr) list \<times> Session" where
  "create_requests U db [] = ([], db)"
| "create_requests U db ((commit, body) # rest) =
     (case create_swift_code U commit db body of
        (response, db') \<Rightarrow>
          (case create_requests U db' rest of
             (responses, db_last) \<Rightarrow> (response # responses, db_last)))"

definition conflict_response :: "pystr \<Rightarrow> HTTPException + pystr" where
  "conflict_response code =
     Inl (HTTP_400_BAD_REQUEST (str ''SWIFT code '' @ quoted code @ str '' already exists.''))"

definition not_found_on_delete :: "HTTPException + pystr" where
  "not_found_on_delete =
     Inl (HTTP_404_NOT_FOUND (str ''SWIFT code not found or error during deletion.''))"

subsection \<open>What a create is expected to store\<close>

text \<open>
  The record that the specification expects to find after a create: the fields of the
  request, the country code and the country name in upper case, and the flag given by
  the code.
\<close>

definition expected_record :: "case_table \<Rightarrow> SwiftCodeCreate \<Rightarrow> SwiftCode" where
  "expected_record U body =
     \<lparr>swift_code = swift_code_in body,
      bank_name = bank_name_in body,
      address = address_in body,
      country_iso2 = upper U (country_iso2_in body),
      country_name = upper U (country_name_in body),
      is_headquarter = endswith (swift_code_in body) (str ''XXX'')\<rparr>"

definition accepted :: "case_table \<Rightarrow> SwiftCodeCreate \<Rightarrow> bool" where
  "accepted U body = (case SwiftCodeCreate_validate U body of Inr swift \<Rightarrow> True | Inl e \<Rightarrow> False)"

fun record_of :: "code_response \<Rightarrow> SwiftCode" where
  "record_of (Headquarter_with_branches r branches) = r"
| "record_of (Plain_record r) = r"

definition created_message :: "pystr \<Rightarrow> HTTPException + pystr" where
  "created_message code = Inr (str ''SWIFT code '' @ quoted code @ str '' created successfully.'')"

definition deleted_message :: "pystr \<Rightarrow> HTTPException + pystr" where
  "deleted_message code = Inr (str ''SWIFT code '' @ quoted code @ str '' deleted successfully.'')"

subsection \<open>Sample data\<close>

definition hq_ABCDEFGHXXX :: SwiftCode where
  "hq_ABCDEFGHXXX =
     \<lparr>swift_code = str ''ABCDEFGHXXX'', bank_name = str ''Head Office'',
      address = Some (str ''1 Main Street''), country_iso2 = str ''AP'',
      country_name = str ''APILAND'', is_headquarter = True\<rparr>"

definition branch_ABCDEFGHB01 :: SwiftCode where
  "branch_ABCDEFGHB01 =
     \<lparr>swift_code = str ''ABCDEFGHB01'', bank_name = str ''Branch 1'',
      address = Some (str ''1a Branch Ave''), country_iso2 = str ''AP'',
      country_name = str ''APILAND'', is_headquarter = False\<rparr>"

definition branch_ABCDEFGHB02 :: SwiftCode where
  "branch_ABCDEFGHB02 =
     \<lparr>swift_code = str ''ABCDEFGHB02'', bank_name = str ''Branch 2'',
      address = None, country_iso2 = str ''AP'',
      country_name = str ''OTHER NAME'', is_headquarter = False\<rparr>"

definition other_ABCDEFGIB01 :: SwiftCode where
  "other_ABCDEFGIB01 =
     \<lparr>swift_code = str ''ABCDEFGIB01'', bank_name = str ''Unrelated'',
      address = Some (str ''2 Other Road''), country_iso2 = str ''OT'',
      country_name = str ''OTHERLAND'', is_headquarter = False\<rparr>"

definition sample_db :: Session where
  "sample_db = [hq_ABCDEFGHXXX, branch_ABCDEFGHB01, other_ABCDEFGIB01, branch_ABCDEFGHB02]"

text \<open>A headquarters with a code of eight characters, and a record that extends it.\<close>

definition hq_ABCDEXXX :: SwiftCode where
  "hq_ABCDEXXX =
     \<lparr>swift_code = str ''ABCDEXXX'', bank_name = str ''Short Head Office'',
      address = None, country_iso2 = str ''AP'',
      country_name = str ''APILAND'', is_headquarter = True\<rparr>"

definition branch_ABCDEXXXB01 :: SwiftCode where
  "branch_ABCDEXXXB01 =
     \<lparr>swift_code = str ''ABCDEXXXB01'', bank_name = str ''Branch of the short one'',
      address = None, country_iso2 = str ''AP'',
      country_name = str ''APILAND'', is_headquarter = False\<rparr>"

definition short_hq_db :: Session where
  "short_hq_db = [hq_ABCDEXXX, branch_ABCDEXXXB01]"

text \<open>The same two rows of one country, yielded in the two possible orders.\<close>

definition two_rows :: Session where
  "two_rows = [branch_ABCDEFGHB01, branch_ABCDEFGHB02]"

definition two_rows_swapped :: Session where
  "two_rows_swapped = [branch_ABCDEFGHB02, branch_ABCDEFGHB01]"

text \<open>The request of the scenario, with a flag that contradicts the code.\<close>

definition body_TESTHQ01XXX :: SwiftCodeCreate where
  "body_TESTHQ01XXX =
     \<lparr>swift_code_in = str ''TESTHQ01XXX'', bank_name_in = str ''Test Bank HQ'',
      address_in = Some (str ''1 Test Street''), country_iso2_in = str ''ts'',
      country_name_in = str ''Testland'', is_headquarter_in = Some False\<rparr>"

definition row_TESTHQ01XXX :: SwiftCode where
  "row_TESTHQ01XXX =
     \<lparr>swift_code = str ''TESTHQ01XXX'', bank_name = str ''Test Bank HQ'',
      address = Some (str ''1 Test Street''), country_iso2 = str ''TS'',
      country_name = str ''TESTLAND'', is_headquarter = True\<rparr>"

definition body_TESTHQ01XXX_again :: SwiftCodeCreate where
  "body_TESTHQ01XXX_again =
     \<lparr>swift_code_in = str ''TESTHQ01XXX'', bank_name_in = str ''Another Bank'',
      address_in = None, country_iso2_in = str ''TS'',
      country_name_in = str ''Testland'', is_headquarter_in = None\<rparr>"

definition body_lowercase :: SwiftCodeCreate where
  "body_lowercase =
     \<lparr>swift_code_in = str ''testhq01xxx'', bank_name_in = str ''Test Bank HQ'',
      address_in = None, country_iso2_in = str ''TS'',
      country_name_in = str ''Testland'', is_headquarter_in = None\<rparr>"

definition no_counts :: load_counts where
  "no_counts = \<lparr>added_count = 0, skipped_count = 0, error_count = 0\<rparr>"

text \<open>A request whose country name has a character outside ASCII.\<close>

definition body_MEXICO :: SwiftCodeCreate where
  "body_MEXICO =
     \<lparr>swift_code_in = str ''BANKMXMM'', bank_name_in = str ''Banco'',
      address_in = None, country_iso2_in = str ''mx'',
      country_name_in = str ''M'' @ [233] @ str ''xico'', is_headquarter_in = None\<rparr>"

definition row_MEXICO :: SwiftCode where
  "row_MEXICO =
     \<lparr>swift_code = str ''BANKMXMM'', bank_name = str ''Banco'',
      address = None, country_iso2 = str ''MX'',
      country_name = str ''M'' @ [201] @ str ''XICO'', is_headquarter = False\<rparr>"


section \<open>Facts about the string operations\<close>

lemma ascii_upper_idem: "ascii_upper (ascii_upper c) = ascii_upper c"
  unfolding ascii_upper_def by auto

lemma ascii_upper_ascii: "c < 128 \<Longrightarrow> ascii_upper c < 128"
  unfolding ascii_upper_def by auto

lemma upper_with_idem:
  "concat (map (upper_with (Rep_case_table U)) (upper_with (Rep_case_table U) c))
     = upper_with (Rep_case_table U) c"
proof (cases "c < 128")
  case True
  then show ?thesis
    by (simp add: upper_with_def ascii_upper_idem ascii_upper_ascii)
next
  case False
  with Rep_case_table [of U] show ?thesis
    by (simp add: upper_with_def)
qed

lemma upper_append: "upper U (xs @ ys) = upper U xs @ upper U ys"
  by (simp add: upper_def)

lemma upper_idem: "upper U (upper U s) = upper U s"
proof (induction s)
  case Nil
  then show ?case by (simp add: upper_def)
next
  case (Cons c s)
  have "upper U (c # s) = upper_with (Rep_case_table U) c @ upper U s"
    by (simp add: upper_def)
  moreover have "upper U (upper_with (Rep_case_table U) c) = upper_with (Rep_case_table U) c"
    using upper_with_idem [of U c] by (simp add: upper_def)
  ultimately show ?case using Cons by (simp add: upper_append)
qed

lemma upper_with_alnum: "c \<in> set (ascii_uppercase @ digits) \<Longrightarrow> upper_with table c = [c]"
  by (auto simp: ascii_uppercase_def digits_def str_def upper_with_def ascii_upper_def)

lemma upper_upper_alnum:
  "list_all (\<lambda>c. c \<in> set (ascii_uppercase @ digits)) v \<Longrightarrow> upper U v = v"
  unfolding upper_def by (induction v) (simp_all add: upper_with_alnum)

lemma upper_upper_alpha: "list_all (\<lambda>c. c \<in> set ascii_uppercase) v \<Longrightarrow> upper U v = v"
  using upper_upper_alnum [of v U] by (simp add: list_all_iff)

lemma alnum_no_wildcard: "c \<in> set (ascii_uppercase @ digits) \<Longrightarrow> c \<noteq> 37 \<and> c \<noteq> 95"
  by (auto simp: ascii_uppercase_def digits_def str_def)

lemma sql_like_percent: "sql_like [37] s"
  by (auto simp: list_ex_iff intro: bexI [of _ "length s"])

lemma startswith_literal:
  "list_all (\<lambda>c. c \<noteq> 37 \<and> c \<noteq> 95) p \<Longrightarrow> startswith s p = (take (length p) s = p)"
  unfolding startswith_def
proof (induction p arbitrary: s)
  case Nil
  then show ?case using sql_like_percent by simp
next
  case (Cons a p)
  then show ?case by (cases s) auto
qed

section \<open>Facts about validation, create and the bulk load\<close>

lemmas string_defs = str_def upper_def upper_with_def ascii_upper_def ascii_uppercase_def
  digits_def endswith_def startswith_def fullmatch_upper_alnum_def fullmatch_upper_alpha2_def

lemma validate_swift_code_iff:
  "(validate_swift_code v = Inr w) = (w = v \<and> SWIFT_CODE_PATTERN v)"
  by (auto simp: validate_swift_code_def Field_length_def check_swift_code_chars_and_length_def
      SWIFT_CODE_PATTERN_def fullmatch_upper_alnum_def)

lemma validate_country_iso2_iff:
  "(validate_country_iso2 U v = Inr w) = (w = upper U v \<and> fullmatch_upper_alpha2 (upper U v))"
  by (auto simp: validate_country_iso2_def Field_length_def check_country_iso2_format_def
      convert_to_uppercase_def fullmatch_upper_alpha2_def)

lemma SwiftCodeCreate_validate_ok:
  assumes "SWIFT_CODE_PATTERN (swift_code_in kw)"
    and "fullmatch_upper_alpha2 (upper U (country_iso2_in kw))"
  shows "SwiftCodeCreate_validate U kw =
           Inr (kw\<lparr>country_iso2_in := upper U (country_iso2_in kw),
                    country_name_in := upper U (country_name_in kw)\<rparr>)"
proof -
  have "validate_swift_code (swift_code_in kw) = Inr (swift_code_in kw)"
    using assms(1) by (simp add: validate_swift_code_iff)
  moreover have "validate_country_iso2 U (country_iso2_in kw) = Inr (upper U (country_iso2_in kw))"
    using assms(2) by (simp add: validate_country_iso2_iff)
  ultimately show ?thesis
    by (simp add: SwiftCodeCreate_validate_def validate_country_name_def convert_to_uppercase_def)
qed

lemma SwiftCodeCreate_validate_Inr:
  assumes "SwiftCodeCreate_validate U kw = Inr s"
  shows "SWIFT_CODE_PATTERN (swift_code_in kw) \<and> fullmatch_upper_alpha2 (upper U (country_iso2_in kw))
      \<and> s = kw\<lparr>country_iso2_in := upper U (country_iso2_in kw),
                 country_name_in := upper U (country_name_in kw)\<rparr>"
proof -
  from assms obtain sc where sc: "validate_swift_code (swift_code_in kw) = Inr sc"
    by (auto simp: SwiftCodeCreate_validate_def split: sum.splits)
  from assms sc obtain cc where cc: "validate_country_iso2 U (country_iso2_in kw) = Inr cc"
    by (auto simp: SwiftCodeCreate_validate_def split: sum.splits)
  from sc have 1: "sc = swift_code_in kw" "SWIFT_CODE_PATTERN (swift_code_in kw)"
    by (simp_all add: validate_swift_code_iff)
  from cc have 2: "cc = upper U (country_iso2_in kw)" "fullmatch_upper_alpha2 (upper U (country_iso2_in kw))"
    by (simp_all add: validate_country_iso2_iff)
  from assms sc cc 1 2 show ?thesis
    by (simp add: SwiftCodeCreate_validate_def validate_country_name_def convert_to_uppercase_def)
qed

lemma SwiftCodeCreate_validate_iff:
  "(SwiftCodeCreate_validate U kw = Inr s) =
     (SWIFT_CODE_PATTERN (swift_code_in kw) \<and> fullmatch_upper_alpha2 (upper U (country_iso2_in kw))
      \<and> s = kw\<lparr>country_iso2_in := upper U (country_iso2_in kw),
                 country_name_in := upper U (country_name_in kw)\<rparr>)"
  using SwiftCodeCreate_validate_ok [of kw U] SwiftCodeCreate_validate_Inr [of U kw s] by auto

lemma SwiftCodeCreate_validate_flag:
  "SwiftCodeCreate_validate U (kw\<lparr>is_headquarter_in := flag\<rparr>) =
     (case SwiftCodeCreate_validate U kw of
        Inl e \<Rightarrow> Inl e
      | Inr s \<Rightarrow> Inr (s\<lparr>is_headquarter_in := flag\<rparr>))"
  unfolding SwiftCodeCreate_validate_def validate_country_name_def
  by (simp split: sum.splits)

lemma create_swift_flag:
  "create_swift U commit db (swift\<lparr>is_headquarter_in := flag\<rparr>) = create_swift U commit db swift"
  by (simp add: create_swift_def)

lemma create_swift_Some:
  "create_swift U commit db swift = (Some r, db') \<Longrightarrow>
     hq_flag_derived r \<and> db' = db @ [r] \<and> swift_code r = upper U (swift_code_in swift)"
  by (auto simp: create_swift_def Let_def hq_flag_derived_def split: if_splits commit_outcome.splits)

lemma create_swift_None:
  "create_swift U commit db swift = (None, db') \<Longrightarrow> db' = db"
  by (auto simp: create_swift_def Let_def split: if_splits commit_outcome.splits)

lemma create_swift_code_flag:
  "create_swift_code U commit db (body\<lparr>is_headquarter_in := flag\<rparr>) = create_swift_code U commit db body"
  by (cases "SwiftCodeCreate_validate U body")
     (simp_all add: create_swift_code_def SwiftCodeCreate_validate_flag create_swift_flag
        cong: option.case_cong)

lemma create_swift_code_new_rows:
  "create_swift_code U commit db body = (response, db1) \<Longrightarrow>
     \<forall>r\<in>set db1. r \<in> set db \<or> hq_flag_derived r"
  unfolding create_swift_code_def
  by (auto split: sum.splits option.splits prod.splits dest: create_swift_Some create_swift_None)

lemma load_data_loop_new_rows:
  "load_data_loop U db cnt rows = (cnt', db2) \<Longrightarrow>
     \<forall>r\<in>set db2. r \<in> set db \<or> hq_flag_derived r"
proof (induction U db cnt rows rule: load_data_loop.induct)
  case (1 U db cnt)
  then show ?case by simp
next
  case (2 U db cnt swift_dict commit swift_data_list)
  show ?case
  proof (cases "SwiftCodeCreate_validate U swift_dict")
    case (Inl e)
    with 2 show ?thesis by simp
  next
    case (Inr schema)
    show ?thesis
    proof (cases "get_swift_by_code U db (swift_code_in schema)")
      case (Some existing)
      with 2 Inr show ?thesis by simp
    next
      case None
      obtain res db' where c: "create_swift U commit db schema = (res, db')"
        by (cases "create_swift U commit db schema")
      show ?thesis
      proof (cases res)
        case None': None
        with c have "db' = db" by (auto dest: create_swift_None)
        with 2 Inr None c None' show ?thesis by simp
      next
        case (Some created)
        with c have new: "hq_flag_derived created" "db' = db @ [created]"
          by (auto dest: create_swift_Some)
        from 2 Inr None c Some
        have "\<forall>r\<in>set db2. r \<in> set db' \<or> hq_flag_derived r" by simp
        with new show ?thesis by auto
      qed
    qed
  qed
qed

lemma load_data_loop_flag:
  "load_data_loop U db cnt (map (\<lambda>(d, c). (d\<lparr>is_headquarter_in := flags d\<rparr>, c)) rows)
     = load_data_loop U db cnt rows"
proof (induction U db cnt rows rule: load_data_loop.induct)
  case (1 U db cnt)
  then show ?case by simp
next
  case (2 U db cnt swift_dict commit swift_data_list)
  then show ?case
    by (simp add: SwiftCodeCreate_validate_flag create_swift_flag
        split: sum.splits option.splits prod.splits)
qed


text \<open>The scenario of the specification, evaluated.\<close>

lemma create_swift_TESTHQ01XXX: "create_swift U Committed [] body_TESTHQ01XXX = (Some row_TESTHQ01XXX, [row_TESTHQ01XXX])"
  by (simp add: create_swift_def Let_def body_TESTHQ01XXX_def row_TESTHQ01XXX_def string_defs)

lemma validate_TESTHQ01XXX: "SwiftCodeCreate_validate U body_TESTHQ01XXX = Inr (body_TESTHQ01XXX\<lparr>country_iso2_in := str ''TS'', country_name_in := str ''TESTLAND''\<rparr>)"
  by (simp add: SwiftCodeCreate_validate_iff SWIFT_CODE_PATTERN_def body_TESTHQ01XXX_def string_defs)

lemma create_swift_code_TESTHQ01XXX: "create_swift_code U Committed [] body_TESTHQ01XXX = (Inr (str ''SWIFT code '' @ quoted (str ''TESTHQ01XXX'') @ str '' created successfully.''), [row_TESTHQ01XXX])"
  unfolding create_swift_code_def validate_TESTHQ01XXX
  by (simp add: get_swift_by_code_def create_swift_def Let_def row_TESTHQ01XXX_def body_TESTHQ01XXX_def string_defs)

lemma load_TESTHQ01XXX: "load_data_loop U [] no_counts [(body_TESTHQ01XXX, Committed)] = (no_counts\<lparr>added_count := 1\<rparr>, [row_TESTHQ01XXX])"
  unfolding load_data_loop.simps validate_TESTHQ01XXX
  by (simp add: get_swift_by_code_def create_swift_def Let_def row_TESTHQ01XXX_def body_TESTHQ01XXX_def no_counts_def string_defs)

section \<open>The derived headquarters flag\<close>

text \<open>
  Claim C1. Every record written through the create operation, by the interactive
  create or by the bulk load, is stored with \<open>is_headquarter\<close> true exactly when the
  stored code ends with \<open>XXX\<close>, whatever flag the caller supplied: the row that
  \<open>create_swift\<close> stores has the derived flag; the rows that \<open>create_swift_code\<close> and
  the loop of the bulk load add to the table have it; and replacing the caller's flag
  by any other value changes neither the reply nor the table.
\<close>

theorem is_headquarter_derived_on_create:
  "(create_swift U commit db swift = (Some r, db') \<longrightarrow>
      is_headquarter r = endswith (swift_code r) (str ''XXX'') \<and> db' = db @ [r])
   \<and> create_swift U commit db (swift\<lparr>is_headquarter_in := flag\<rparr>) = create_swift U commit db swift
   \<and> (create_swift_code U commit db body = (response, db1) \<longrightarrow>
        (\<forall>r\<in>set db1. r \<in> set db \<or> hq_flag_derived r))
   \<and> create_swift_code U commit db (body\<lparr>is_headquarter_in := flag\<rparr>)
        = create_swift_code U commit db body
   \<and> (load_data_loop U db cnt rows = (cnt', db2) \<longrightarrow>
        (\<forall>r\<in>set db2. r \<in> set db \<or> hq_flag_derived r))
   \<and> load_data_loop U db cnt (map (\<lambda>(d, c). (d\<lparr>is_headquarter_in := flags d\<rparr>, c)) rows)
        = load_data_loop U db cnt rows"
  using create_swift_Some [of U commit db swift r db'] create_swift_flag
    create_swift_code_new_rows [of U commit db body response db1] create_swift_code_flag
    load_data_loop_new_rows [of U db cnt rows cnt' db2] load_data_loop_flag
  by (simp add: hq_flag_derived_def)


theorem is_headquarter_derived_on_create_witness:
  "create_swift sample_table Committed [] body_TESTHQ01XXX = (Some row_TESTHQ01XXX, [row_TESTHQ01XXX])
   \<and> is_headquarter_in body_TESTHQ01XXX = Some False
   \<and> is_headquarter row_TESTHQ01XXX = endswith (swift_code row_TESTHQ01XXX) (str ''XXX'')
   \<and> is_headquarter row_TESTHQ01XXX
   \<and> fst (create_swift_code sample_table Committed [] body_TESTHQ01XXX)
        = Inr (str ''SWIFT code '' @ quoted (str ''TESTHQ01XXX'') @ str '' created successfully.'')
   \<and> load_data_loop sample_table [] no_counts [(body_TESTHQ01XXX, Committed)]
        = (no_counts\<lparr>added_count := 1\<rparr>, [row_TESTHQ01XXX])
   \<and> hq_flag_derived row_TESTHQ01XXX"
  using is_headquarter_derived_on_create [of sample_table Committed "[]" body_TESTHQ01XXX row_TESTHQ01XXX
      "[row_TESTHQ01XXX]" "Some True" body_TESTHQ01XXX
      "Inr (str ''SWIFT code '' @ quoted (str ''TESTHQ01XXX'') @ str '' created successfully.'')"
      "[row_TESTHQ01XXX]" no_counts "[(body_TESTHQ01XXX, Committed)]"
      "no_counts\<lparr>added_count := 1\<rparr>" "[row_TESTHQ01XXX]"]
    create_swift_TESTHQ01XXX create_swift_code_TESTHQ01XXX load_TESTHQ01XXX
  by (simp add: row_TESTHQ01XXX_def str_def body_TESTHQ01XXX_def)


section \<open>Case of the code argument\<close>

text \<open>
  Claim C9. At the repository layer the code argument is upper-cased before the
  exact-match query: \<open>get_swift_by_code\<close> gives the same result for a code and for its
  upper-case form, and \<open>delete_swift\<close> acts on the same record for both.
\<close>

theorem code_argument_case_insensitive:
  "get_swift_by_code U db c = get_swift_by_code U db (upper U c)
   \<and> delete_swift U commit db c = delete_swift U commit db (upper U c)"
  by (simp add: get_swift_by_code_def delete_swift_def upper_idem)

section \<open>Facts about lookups\<close>

lemma find_append_if:
  "find P (xs @ ys) = (case find P xs of None \<Rightarrow> find P ys | Some x \<Rightarrow> Some x)"
  by (induction xs) auto

lemma get_swift_by_code_None:
  "(get_swift_by_code U db code = None) = (\<forall>r\<in>set db. swift_code r \<noteq> upper U code)"
  by (auto simp: get_swift_by_code_def find_None_iff)

lemma get_swift_by_code_Some:
  "get_swift_by_code U db code = Some r \<Longrightarrow> r \<in> set db \<and> swift_code r = upper U code"
  by (auto simp: get_swift_by_code_def find_Some_iff)

lemma get_swift_by_code_distinct:
  "distinct (map swift_code db) \<Longrightarrow> r \<in> set db \<Longrightarrow> upper U code = swift_code r \<Longrightarrow>
     get_swift_by_code U db code = Some r"
  unfolding get_swift_by_code_def
  by (induction db) (auto simp: rev_image_eqI)

lemma upper_SWIFT_CODE_PATTERN: "SWIFT_CODE_PATTERN v \<Longrightarrow> upper U v = v"
  by (simp add: SWIFT_CODE_PATTERN_def upper_upper_alnum)

lemma upper_COUNTRY_CODE: "fullmatch_upper_alpha2 v \<Longrightarrow> upper U v = v"
  by (simp add: fullmatch_upper_alpha2_def upper_upper_alpha)

lemma SWIFT_CODE_PATTERN_set:
  "SWIFT_CODE_PATTERN v =
     ((length v = 8 \<or> length v = 11) \<and> (\<forall>c\<in>set v. c \<in> set ascii_uppercase \<union> set digits))"
  by (auto simp: SWIFT_CODE_PATTERN_def list_all_iff)

section \<open>Delete\<close>

lemma get_swift_by_code_removed:
  "get_swift_by_code U (filter (\<lambda>x. swift_code x \<noteq> upper U code) db) code = None"
  by (simp add: get_swift_by_code_None)

lemma delete_swift_absent:
  "get_swift_by_code U db code = None \<Longrightarrow> delete_swift U commit db code = (None, db)"
  by (simp add: delete_swift_def)

lemma delete_swift_fault:
  "delete_swift U StorageFault db code = (None, db)"
  by (simp add: delete_swift_def split: option.splits)

lemma delete_swift_done:
  "get_swift_by_code U db code = Some r \<Longrightarrow>
     delete_swift U Committed db code = (Some r, filter (\<lambda>x. swift_code x \<noteq> upper U code) db)"
  by (auto simp: delete_swift_def dest: get_swift_by_code_Some)

lemma delete_swift_Some:
  "delete_swift U commit db code = (Some r, db') \<Longrightarrow>
     commit = Committed \<and> get_swift_by_code U db code = Some r"
  by (auto simp: delete_swift_def split: option.splits commit_outcome.splits)


text \<open>
  Claim C8. For a code that the path pattern admits, delete answers not-found when no
  record has the code, and gives the very same answer, with the table unchanged, when
  the record exists and the storage layer fails to remove it; the repository function
  returns \<open>None\<close> in both cases. Success is reported only when the row was found and
  the removal was committed, and then the code is no longer stored.
\<close>

theorem delete_folds_fault_into_not_found:
  assumes "SWIFT_CODE_PATTERN code"
  shows "(get_swift_by_code U db code = None \<longrightarrow>
            delete_swift U commit db code = (None, db)
            \<and> delete_swift_code U commit db code = (not_found_on_delete, db))
       \<and> (get_swift_by_code U db code = Some r \<longrightarrow>
            delete_swift U StorageFault db code = (None, db)
            \<and> delete_swift_code U StorageFault db code = (not_found_on_delete, db))
       \<and> (get_swift_by_code U db code = Some r \<longrightarrow>
            delete_swift_code U Committed db code
              = (deleted_message code, filter (\<lambda>x. swift_code x \<noteq> code) db)
            \<and> get_swift_by_code U (filter (\<lambda>x. swift_code x \<noteq> code) db) code = None)
       \<and> (fst (delete_swift_code U commit db code) = Inr m \<longrightarrow>
            commit = Committed \<and> get_swift_by_code U db code \<noteq> None
            \<and> get_swift_by_code U (snd (delete_swift_code U commit db code)) code = None)"
proof -
  from assms have up: "upper U code = code" by (rule upper_SWIFT_CODE_PATTERN)
  have 1: "get_swift_by_code U db code = None \<longrightarrow>
            delete_swift U commit db code = (None, db)
            \<and> delete_swift_code U commit db code = (not_found_on_delete, db)"
    using assms by (simp add: delete_swift_code_def delete_swift_absent not_found_on_delete_def)
  have 2: "delete_swift U StorageFault db code = (None, db)
            \<and> delete_swift_code U StorageFault db code = (not_found_on_delete, db)"
    using assms by (simp add: delete_swift_code_def delete_swift_fault not_found_on_delete_def)
  have 3: "get_swift_by_code U db code = Some r \<longrightarrow>
            delete_swift_code U Committed db code
              = (deleted_message code, filter (\<lambda>x. swift_code x \<noteq> code) db)
            \<and> get_swift_by_code U (filter (\<lambda>x. swift_code x \<noteq> code) db) code = None"
    using assms get_swift_by_code_removed [of U code db]
    by (simp add: delete_swift_code_def delete_swift_done deleted_message_def up)
  have 4: "fst (delete_swift_code U commit db code) = Inr m \<longrightarrow>
            commit = Committed \<and> get_swift_by_code U db code \<noteq> None
            \<and> get_swift_by_code U (snd (delete_swift_code U commit db code)) code = None"
  proof
    assume ok: "fst (delete_swift_code U commit db code) = Inr m"
    obtain res db' where d: "delete_swift U commit db code = (res, db')"
      by (cases "delete_swift U commit db code")
    with ok assms obtain x where x: "res = Some x"
      by (cases res) (auto simp: delete_swift_code_def)
    with d have c: "commit = Committed" "get_swift_by_code U db code = Some x"
      by (auto dest: delete_swift_Some)
    with 3 [rule_format] get_swift_by_code_removed [of U code db] assms
    show "commit = Committed \<and> get_swift_by_code U db code \<noteq> None
            \<and> get_swift_by_code U (snd (delete_swift_code U commit db code)) code = None"
      by (simp add: delete_swift_code_def delete_swift_done up)
  qed
  from 1 2 3 4 show ?thesis by blast
qed


lemmas sample_defs = sample_db_def hq_ABCDEFGHXXX_def branch_ABCDEFGHB01_def
  branch_ABCDEFGHB02_def other_ABCDEFGIB01_def

lemma sample_get_other: "get_swift_by_code U sample_db (str ''ABCDEFGIB01'') = Some other_ABCDEFGIB01"
  by (simp add: get_swift_by_code_def sample_defs string_defs)

lemma sample_get_missing: "get_swift_by_code U sample_db (str ''NONEXIST'') = None"
  by (simp add: get_swift_by_code_def sample_defs string_defs)

lemma pattern_ABCDEFGIB01: "SWIFT_CODE_PATTERN (str ''ABCDEFGIB01'')"
  by (simp add: SWIFT_CODE_PATTERN_def string_defs)

lemma pattern_NONEXIST: "SWIFT_CODE_PATTERN (str ''NONEXIST'')"
  by (simp add: SWIFT_CODE_PATTERN_def string_defs)

theorem delete_folds_fault_into_not_found_witness:
  "SWIFT_CODE_PATTERN (str ''NONEXIST'') \<and> SWIFT_CODE_PATTERN (str ''ABCDEFGIB01'')
   \<and> get_swift_by_code sample_table sample_db (str ''NONEXIST'') = None
   \<and> get_swift_by_code sample_table sample_db (str ''ABCDEFGIB01'') = Some other_ABCDEFGIB01
   \<and> delete_swift_code sample_table Committed sample_db (str ''NONEXIST'') = (not_found_on_delete, sample_db)
   \<and> delete_swift_code sample_table StorageFault sample_db (str ''ABCDEFGIB01'') = (not_found_on_delete, sample_db)
   \<and> delete_swift_code sample_table Committed sample_db (str ''ABCDEFGIB01'')
        = (deleted_message (str ''ABCDEFGIB01''),
           [hq_ABCDEFGHXXX, branch_ABCDEFGHB01, branch_ABCDEFGHB02])"
proof -
  note a = delete_folds_fault_into_not_found [OF pattern_NONEXIST, of sample_table sample_db Committed
      other_ABCDEFGIB01 "(str ''x'')"]
  note b = delete_folds_fault_into_not_found [OF pattern_ABCDEFGIB01, of sample_table sample_db Committed
      other_ABCDEFGIB01 "(str ''x'')"]
  have "filter (\<lambda>x. swift_code x \<noteq> (str ''ABCDEFGIB01'')) sample_db
          = [hq_ABCDEFGHXXX, branch_ABCDEFGHB01, branch_ABCDEFGHB02]"
    by (simp add: sample_defs str_def)
  with a b sample_get_other sample_get_missing pattern_NONEXIST pattern_ABCDEFGIB01
  show ?thesis by simp
qed

section \<open>Facts about create followed by a lookup\<close>

lemma SwiftCode_model_validate_wf:
  assumes "wf_row U r"
  shows "SwiftCode_model_validate U r = Inr r"
proof -
  from assms have "validate_swift_code (swift_code r) = Inr (swift_code r)"
    by (simp add: wf_row_def validate_swift_code_iff)
  moreover from assms have "validate_country_iso2 U (country_iso2 r) = Inr (country_iso2 r)"
    by (simp add: wf_row_def validate_country_iso2_iff upper_COUNTRY_CODE)
  moreover from assms have "validate_country_name U (country_name r) = Inr (country_name r)"
    by (simp add: wf_row_def validate_country_name_def convert_to_uppercase_def)
  ultimately show ?thesis
    by (simp add: SwiftCode_model_validate_def)
qed

lemma wf_row_expected_record:
  assumes "SwiftCodeCreate_validate U body = Inr swift"
  shows "wf_row U (expected_record U body)"
  using assms
  by (simp add: SwiftCodeCreate_validate_iff wf_row_def expected_record_def upper_idem)

lemma create_swift_validated:
  assumes "SwiftCodeCreate_validate U body = Inr swift"
    and "get_swift_by_code U db (swift_code_in body) = None"
  shows "create_swift U Committed db swift = (Some (expected_record U body), db @ [expected_record U body])"
proof -
  from assms(1) have p: "SWIFT_CODE_PATTERN (swift_code_in body)"
    and s: "swift = body\<lparr>country_iso2_in := upper U (country_iso2_in body),
                 country_name_in := upper U (country_name_in body)\<rparr>"
    by (simp_all add: SwiftCodeCreate_validate_iff)
  from p have up: "upper U (swift_code_in body) = swift_code_in body"
    by (rule upper_SWIFT_CODE_PATTERN)
  from assms(2) have "\<not> list_ex (\<lambda>r. swift_code r = swift_code_in body) db"
    by (simp add: get_swift_by_code_None up list_ex_iff)
  then show ?thesis
    by (simp add: create_swift_def Let_def s up upper_idem expected_record_def)
qed

lemma get_swift_by_code_appended:
  assumes "get_swift_by_code U db code = None" and "swift_code r = upper U code"
  shows "get_swift_by_code U (db @ [r]) code = Some r"
  using assms by (simp add: get_swift_by_code_def find_append_if)

lemma create_swift_code_validated:
  assumes "SwiftCodeCreate_validate U body = Inr swift"
    and "get_swift_by_code U db (swift_code_in body) = None"
  shows "create_swift_code U Committed db body
           = (created_message (swift_code_in body), db @ [expected_record U body])"
proof -
  from assms(1) have "swift_code_in swift = swift_code_in body"
    by (simp add: SwiftCodeCreate_validate_iff)
  with assms create_swift_validated [OF assms] show ?thesis
    by (simp add: create_swift_code_def created_message_def expected_record_def)
qed

lemma read_swift_code_record:
  assumes "SWIFT_CODE_PATTERN code" and "get_swift_by_code U db code = Some r" and "wf_row U r"
  shows "\<exists>resp. read_swift_code U db code = Inr resp \<and> record_of resp = r"
  using assms by (simp add: read_swift_code_def SwiftCode_model_validate_wf Let_def)

lemma get_after_create:
  assumes "SwiftCodeCreate_validate U body = Inr swift"
    and "get_swift_by_code U db (swift_code_in body) = None"
  shows "get_swift_by_code U (db @ [expected_record U body]) (swift_code_in body)
           = Some (expected_record U body)"
proof -
  from assms(1) have "SWIFT_CODE_PATTERN (swift_code_in body)"
    by (simp add: SwiftCodeCreate_validate_iff)
  then have "upper U (swift_code_in body) = swift_code_in body"
    by (rule upper_SWIFT_CODE_PATTERN)
  then have "swift_code (expected_record U body) = upper U (swift_code_in body)"
    by (simp add: expected_record_def)
  with assms(2) show ?thesis by (rule get_swift_by_code_appended)
qed

lemma expected_TESTHQ01XXX: "expected_record U body_TESTHQ01XXX = row_TESTHQ01XXX"
  by (simp add: expected_record_def body_TESTHQ01XXX_def row_TESTHQ01XXX_def string_defs)

section \<open>Validation of the code on create\<close>

text \<open>
  Claim C3, as amended. The interactive create accepts a code exactly when its length
  is 8 or 11 and every character, as supplied, is in \<open>[A-Z0-9]\<close>; the accepted value
  is the supplied one, and a committed create of a code not yet stored stores it
  unchanged. The code is not upper-cased before the check (only the country
  code and the country name are), so a lower-case code is rejected with status 422
  even when its upper-case form would be valid.
\<close>

theorem swift_code_accepted_as_supplied:
  "(validate_swift_code v = Inr w) =
     (w = v \<and> (length v = 8 \<or> length v = 11)
      \<and> (\<forall>c\<in>set v. c \<in> set ascii_uppercase \<union> set digits))
   \<and> (accepted U body \<longrightarrow>
        (length (swift_code_in body) = 8 \<or> length (swift_code_in body) = 11)
        \<and> (\<forall>c\<in>set (swift_code_in body). c \<in> set ascii_uppercase \<union> set digits))
   \<and> (\<not> SWIFT_CODE_PATTERN (swift_code_in body) \<longrightarrow>
        create_swift_code U commit db body = (Inl HTTP_422_UNPROCESSABLE_ENTITY, db))
   \<and> (accepted U body \<and> get_swift_by_code U db (swift_code_in body) = None \<longrightarrow>
        create_swift_code U Committed db body
          = (created_message (swift_code_in body), db @ [expected_record U body])
        \<and> swift_code (expected_record U body) = swift_code_in body)"
proof (intro conjI impI)
  show "(validate_swift_code v = Inr w) =
     (w = v \<and> (length v = 8 \<or> length v = 11)
      \<and> (\<forall>c\<in>set v. c \<in> set ascii_uppercase \<union> set digits))"
    by (simp add: validate_swift_code_iff SWIFT_CODE_PATTERN_set)
next
  assume "accepted U body"
  then obtain swift where "SwiftCodeCreate_validate U body = Inr swift"
    by (auto simp: accepted_def split: sum.splits)
  then have "SWIFT_CODE_PATTERN (swift_code_in body)"
    by (simp add: SwiftCodeCreate_validate_iff)
  then show "length (swift_code_in body) = 8 \<or> length (swift_code_in body) = 11"
    and "\<forall>c\<in>set (swift_code_in body). c \<in> set ascii_uppercase \<union> set digits"
    by (simp_all add: SWIFT_CODE_PATTERN_set)
next
  assume "\<not> SWIFT_CODE_PATTERN (swift_code_in body)"
  then have "\<exists>e. SwiftCodeCreate_validate U body = Inl e"
    by (cases "SwiftCodeCreate_validate U body") (auto simp: SwiftCodeCreate_validate_iff)
  then show "create_swift_code U commit db body = (Inl HTTP_422_UNPROCESSABLE_ENTITY, db)"
    by (auto simp: create_swift_code_def)
next
  assume a: "accepted U body \<and> get_swift_by_code U db (swift_code_in body) = None"
  then obtain swift where "SwiftCodeCreate_validate U body = Inr swift"
    by (auto simp: accepted_def split: sum.splits)
  with a show "create_swift_code U Committed db body
          = (created_message (swift_code_in body), db @ [expected_record U body])"
    by (simp add: create_swift_code_validated)
next
  show "swift_code (expected_record U body) = swift_code_in body"
    by (simp add: expected_record_def)
qed


lemma body_lowercase_not_pattern: "\<not> SWIFT_CODE_PATTERN (swift_code_in body_lowercase)"
  by (simp add: body_lowercase_def SWIFT_CODE_PATTERN_def string_defs)

lemma body_TESTHQ01XXX_accepted: "accepted U body_TESTHQ01XXX"
  by (simp add: accepted_def validate_TESTHQ01XXX)

theorem swift_code_accepted_as_supplied_witness:
  "validate_swift_code (str ''TESTHQ01XXX'') = Inr (str ''TESTHQ01XXX'')
   \<and> accepted sample_table body_TESTHQ01XXX
   \<and> length (swift_code_in body_TESTHQ01XXX) = 11
   \<and> \<not> SWIFT_CODE_PATTERN (swift_code_in body_lowercase)
   \<and> create_swift_code sample_table StorageFault sample_db body_lowercase
        = (Inl HTTP_422_UNPROCESSABLE_ENTITY, sample_db)
   \<and> get_swift_by_code sample_table [] (swift_code_in body_TESTHQ01XXX) = None
   \<and> create_swift_code sample_table Committed [] body_TESTHQ01XXX
        = (created_message (str ''TESTHQ01XXX''), [row_TESTHQ01XXX])
   \<and> swift_code row_TESTHQ01XXX = str ''TESTHQ01XXX''"
proof -
  note a = swift_code_accepted_as_supplied [where v = "str ''TESTHQ01XXX''"
      and w = "str ''TESTHQ01XXX''" and body = body_TESTHQ01XXX and commit = StorageFault
      and db = "[]" and U = sample_table]
  note b = swift_code_accepted_as_supplied [where v = "str ''TESTHQ01XXX''"
      and w = "str ''TESTHQ01XXX''" and body = body_lowercase and commit = StorageFault
      and db = sample_db and U = sample_table]
  have v: "validate_swift_code (str ''TESTHQ01XXX'') = Inr (str ''TESTHQ01XXX'')"
    using a by (simp add: string_defs)
  have l: "length (swift_code_in body_TESTHQ01XXX) = 11"
    "swift_code_in body_TESTHQ01XXX = str ''TESTHQ01XXX''"
    by (simp_all add: body_TESTHQ01XXX_def str_def)
  have r: "create_swift_code sample_table StorageFault sample_db body_lowercase
        = (Inl HTTP_422_UNPROCESSABLE_ENTITY, sample_db)"
    using b body_lowercase_not_pattern by blast
  have e: "get_swift_by_code sample_table [] (swift_code_in body_TESTHQ01XXX) = None"
    by (simp add: get_swift_by_code_def)
  from a e body_TESTHQ01XXX_accepted [of sample_table]
  have c: "create_swift_code sample_table Committed [] body_TESTHQ01XXX
        = (created_message (str ''TESTHQ01XXX''), [row_TESTHQ01XXX])"
    "swift_code row_TESTHQ01XXX = str ''TESTHQ01XXX''"
    by (simp_all add: expected_TESTHQ01XXX l(2))
  from v l(1) r e c body_lowercase_not_pattern body_TESTHQ01XXX_accepted [of sample_table]
  show ?thesis by simp
qed

text \<open>
  The claim as stated fails: \<open>testhq01xxx\<close> has length 11 and its upper-case form
  consists of characters of \<open>[A-Z0-9]\<close>, and it is rejected.
\<close>

theorem lowercase_code_rejected:
  "(length (str ''testhq01xxx'') = 8 \<or> length (str ''testhq01xxx'') = 11)
   \<and> list_all (\<lambda>c. c \<in> set (ascii_uppercase @ digits)) (upper sample_table (str ''testhq01xxx''))
   \<and> validate_swift_code (str ''testhq01xxx'') = Inl (ValueError
        (str ''SWIFT code must contain only uppercase letters (A-Z) and digits (0-9)''))
   \<and> \<not> accepted sample_table body_lowercase
   \<and> create_swift_code sample_table Committed [] body_lowercase = (Inl HTTP_422_UNPROCESSABLE_ENTITY, [])"
  by (simp add: validate_swift_code_def Field_length_def check_swift_code_chars_and_length_def
      accepted_def create_swift_code_def SwiftCodeCreate_validate_def body_lowercase_def string_defs)

section \<open>Create followed by a lookup\<close>

text \<open>
  Claim C6. Round trip: when a request passes validation and its code is not yet
  stored, a committed create stores a record that a lookup by the code returns, with
  the \<open>bank_name\<close> and \<open>address\<close> of the request, its \<open>country_iso2\<close> and
  \<open>country_name\<close> in upper case, and \<open>is_headquarter\<close> given by the code alone, not
  by any flag of the request. The same holds through the router: the create reports
  success and the reply to a lookup by the code carries that record.
\<close>

theorem create_then_get_round_trip:
  assumes "SwiftCodeCreate_validate U body = Inr swift"
    and "get_swift_by_code U db (swift_code_in body) = None"
  shows "create_swift U Committed db swift
           = (Some (expected_record U body), db @ [expected_record U body])
       \<and> create_swift_code U Committed db body
           = (created_message (swift_code_in body), db @ [expected_record U body])
       \<and> get_swift_by_code U (db @ [expected_record U body]) (swift_code_in body)
           = Some (expected_record U body)
       \<and> (\<exists>resp. read_swift_code U (db @ [expected_record U body]) (swift_code_in body) = Inr resp
             \<and> record_of resp = expected_record U body)"
proof -
  from assms(1) have p: "SWIFT_CODE_PATTERN (swift_code_in body)"
    by (simp add: SwiftCodeCreate_validate_iff)
  have g: "get_swift_by_code U (db @ [expected_record U body]) (swift_code_in body)
           = Some (expected_record U body)"
    using assms by (rule get_after_create)
  from p g wf_row_expected_record [OF assms(1)]
  have "\<exists>resp. read_swift_code U (db @ [expected_record U body]) (swift_code_in body) = Inr resp
             \<and> record_of resp = expected_record U body"
    by (rule read_swift_code_record)
  with g create_swift_validated [OF assms] create_swift_code_validated [OF assms]
  show ?thesis by blast
qed

lemma validate_MEXICO:
  "SwiftCodeCreate_validate sample_table body_MEXICO
     = Inr (body_MEXICO\<lparr>country_iso2_in := str ''MX'',
                           country_name_in := str ''M'' @ [201] @ str ''XICO''\<rparr>)"
  by (simp add: SwiftCodeCreate_validate_iff SWIFT_CODE_PATTERN_def body_MEXICO_def
      string_defs sample_table.rep_eq)

lemma expected_MEXICO: "expected_record sample_table body_MEXICO = row_MEXICO"
  by (simp add: expected_record_def body_MEXICO_def row_MEXICO_def string_defs
      sample_table.rep_eq)

lemma validate_country_iso2_sharp_s: "validate_country_iso2 sample_table [223] = Inr (str ''SS'')"
  by (simp add: validate_country_iso2_iff string_defs sample_table.rep_eq)

theorem create_then_get_round_trip_witness:
  "SwiftCodeCreate_validate sample_table body_TESTHQ01XXX
     = Inr (body_TESTHQ01XXX\<lparr>country_iso2_in := str ''TS'', country_name_in := str ''TESTLAND''\<rparr>)
   \<and> get_swift_by_code sample_table [] (swift_code_in body_TESTHQ01XXX) = None
   \<and> get_swift_by_code sample_table [row_TESTHQ01XXX] (str ''TESTHQ01XXX'') = Some row_TESTHQ01XXX
   \<and> bank_name row_TESTHQ01XXX = str ''Test Bank HQ''
   \<and> address row_TESTHQ01XXX = Some (str ''1 Test Street'')
   \<and> country_iso2 row_TESTHQ01XXX = str ''TS''
   \<and> country_name row_TESTHQ01XXX = str ''TESTLAND''
   \<and> is_headquarter row_TESTHQ01XXX
   \<and> is_headquarter_in body_TESTHQ01XXX = Some False
   \<and> country_name_in body_MEXICO = str ''M'' @ [233] @ str ''xico''
   \<and> get_swift_by_code sample_table [row_MEXICO] (str ''BANKMXMM'') = Some row_MEXICO
   \<and> country_iso2 row_MEXICO = str ''MX''
   \<and> country_name row_MEXICO = str ''M'' @ [201] @ str ''XICO''"
proof -
  have e: "get_swift_by_code sample_table [] (swift_code_in body_TESTHQ01XXX) = None"
    "get_swift_by_code sample_table [] (swift_code_in body_MEXICO) = None"
    by (simp_all add: get_swift_by_code_def)
  have c: "swift_code_in body_TESTHQ01XXX = str ''TESTHQ01XXX''"
    "swift_code_in body_MEXICO = str ''BANKMXMM''"
    by (simp_all add: body_TESTHQ01XXX_def body_MEXICO_def)
  from create_then_get_round_trip [OF validate_TESTHQ01XXX e(1)]
  have 1: "get_swift_by_code sample_table [row_TESTHQ01XXX] (str ''TESTHQ01XXX'') = Some row_TESTHQ01XXX"
    by (simp add: expected_TESTHQ01XXX c)
  from create_then_get_round_trip [OF validate_MEXICO e(2)]
  have 2: "get_swift_by_code sample_table [row_MEXICO] (str ''BANKMXMM'') = Some row_MEXICO"
    by (simp add: expected_MEXICO c)
  have 3: "bank_name row_TESTHQ01XXX = str ''Test Bank HQ''"
    "address row_TESTHQ01XXX = Some (str ''1 Test Street'')"
    "country_iso2 row_TESTHQ01XXX = str ''TS''"
    "country_name row_TESTHQ01XXX = str ''TESTLAND''"
    "is_headquarter row_TESTHQ01XXX"
    "is_headquarter_in body_TESTHQ01XXX = Some False"
    "country_name_in body_MEXICO = str ''M'' @ [233] @ str ''xico''"
    "country_iso2 row_MEXICO = str ''MX''"
    "country_name row_MEXICO = str ''M'' @ [201] @ str ''XICO''"
    by (simp_all add: row_TESTHQ01XXX_def body_TESTHQ01XXX_def body_MEXICO_def row_MEXICO_def)
  from validate_TESTHQ01XXX [of sample_table] e(1) 1 2 3 show ?thesis
    by simp
qed

section \<open>Creating the same code again\<close>

lemma create_swift_duplicate:
  assumes "get_swift_by_code U db (swift_code_in swift') = Some r"
  shows "create_swift U commit db swift' = (None, db)"
proof -
  from assms have "r \<in> set db" "swift_code r = upper U (swift_code_in swift')"
    by (auto dest: get_swift_by_code_Some)
  then have "list_ex (\<lambda>x. swift_code x = upper U (swift_code_in swift')) db"
    by (auto simp: list_ex_iff)
  then show ?thesis by (simp add: create_swift_def Let_def)
qed

lemma create_swift_code_conflict:
  assumes "accepted U body'" and "get_swift_by_code U db (swift_code_in body') = Some r"
  shows "create_swift_code U commit db body' = (conflict_response (swift_code_in body'), db)"
proof -
  from assms(1) obtain swift' where v: "SwiftCodeCreate_validate U body' = Inr swift'"
    by (auto simp: accepted_def split: sum.splits)
  then have "swift_code_in swift' = swift_code_in body'"
    by (simp add: SwiftCodeCreate_validate_iff)
  with v assms(2) show ?thesis
    by (simp add: create_swift_code_def conflict_response_def)
qed

lemma create_requests_conflicts:
  assumes "get_swift_by_code U db code = Some r"
    and "\<forall>x\<in>set later. accepted U (snd x) \<and> swift_code_in (snd x) = code"
  shows "create_requests U db later = (replicate (length later) (conflict_response code), db)"
  using assms(2)
proof (induction later)
  case Nil
  then show ?case by simp
next
  case (Cons x later)
  obtain commit body' where x: "x = (commit, body')" by (cases x)
  with Cons.prems have a: "accepted U body'" and c: "swift_code_in body' = code" by auto
  from a assms(1) c have "create_swift_code U commit db body' = (conflict_response code, db)"
    using create_swift_code_conflict [of U body' db r commit] by simp
  moreover from Cons have "create_requests U db later
      = (replicate (length later) (conflict_response code), db)" by simp
  ultimately show ?case by (simp add: x)
qed


text \<open>
  Claim C7. Creating a valid record whose code is not yet stored succeeds, and every
  later request to create the same code, whatever its other fields and whatever the
  storage layer would do, is answered with the conflict reply (status 400, which is
  not the not-found reply), leaves the table unchanged, and so leaves the record of
  the first call as it was. At the repository layer the second \<open>create_swift\<close>
  returns \<open>None\<close> and leaves the table unchanged.
\<close>

theorem conflict_on_repeated_create:
  assumes "SwiftCodeCreate_validate U body = Inr swift"
    and "get_swift_by_code U db (swift_code_in body) = None"
    and "\<forall>x\<in>set later. accepted U (snd x) \<and> swift_code_in (snd x) = swift_code_in body"
  shows "create_requests U db ((Committed, body) # later)
           = (created_message (swift_code_in body)
                # replicate (length later) (conflict_response (swift_code_in body)),
              db @ [expected_record U body])
       \<and> get_swift_by_code U (db @ [expected_record U body]) (swift_code_in body)
           = Some (expected_record U body)
       \<and> create_swift U commit (db @ [expected_record U body]) swift
           = (None, db @ [expected_record U body])
       \<and> conflict_response (swift_code_in body) \<noteq> Inl (HTTP_404_NOT_FOUND detail)"
proof -
  have g: "get_swift_by_code U (db @ [expected_record U body]) (swift_code_in body)
           = Some (expected_record U body)"
    using assms(1,2) by (rule get_after_create)
  have c: "create_swift_code U Committed db body
           = (created_message (swift_code_in body), db @ [expected_record U body])"
    using assms(1,2) by (rule create_swift_code_validated)
  from g assms(3) have "create_requests U (db @ [expected_record U body]) later
      = (replicate (length later) (conflict_response (swift_code_in body)),
         db @ [expected_record U body])"
    by (rule create_requests_conflicts)
  with c have 1: "create_requests U db ((Committed, body) # later)
           = (created_message (swift_code_in body)
                # replicate (length later) (conflict_response (swift_code_in body)),
              db @ [expected_record U body])" by simp
  from assms(1) have "swift_code_in swift = swift_code_in body"
    by (simp add: SwiftCodeCreate_validate_iff)
  with g have 2: "create_swift U commit (db @ [expected_record U body]) swift
           = (None, db @ [expected_record U body])"
    by (simp add: create_swift_duplicate)
  have 3: "conflict_response (swift_code_in body) \<noteq> Inl (HTTP_404_NOT_FOUND detail)"
    by (simp add: conflict_response_def)
  from 1 g 2 3 show ?thesis by blast
qed

lemma validate_TESTHQ01XXX_again: "accepted U body_TESTHQ01XXX_again"
  by (simp add: accepted_def SwiftCodeCreate_validate_ok SWIFT_CODE_PATTERN_def
      body_TESTHQ01XXX_again_def string_defs)

theorem conflict_on_repeated_create_witness:
  "create_requests sample_table []
     [(Committed, body_TESTHQ01XXX), (StorageFault, body_TESTHQ01XXX_again),
      (Committed, body_TESTHQ01XXX)]
     = ([created_message (str ''TESTHQ01XXX''), conflict_response (str ''TESTHQ01XXX''),
         conflict_response (str ''TESTHQ01XXX'')],
        [row_TESTHQ01XXX])
   \<and> get_swift_by_code sample_table [row_TESTHQ01XXX] (str ''TESTHQ01XXX'') = Some row_TESTHQ01XXX
   \<and> bank_name row_TESTHQ01XXX = str ''Test Bank HQ''"
proof -
  have e: "get_swift_by_code sample_table [] (swift_code_in body_TESTHQ01XXX) = None"
    by (simp add: get_swift_by_code_def)
  have l: "\<forall>x\<in>set [(StorageFault, body_TESTHQ01XXX_again), (Committed, body_TESTHQ01XXX)].
             accepted sample_table (snd x) \<and> swift_code_in (snd x) = swift_code_in body_TESTHQ01XXX"
    using validate_TESTHQ01XXX_again body_TESTHQ01XXX_accepted
    by (simp add: body_TESTHQ01XXX_def str_def body_TESTHQ01XXX_again_def)
  have c: "swift_code_in body_TESTHQ01XXX = str ''TESTHQ01XXX''"
    by (simp add: body_TESTHQ01XXX_def str_def)
  from conflict_on_repeated_create [OF validate_TESTHQ01XXX e l, of Committed "(str ''x'')"]
  show ?thesis
    by (simp add: expected_TESTHQ01XXX c row_TESTHQ01XXX_def str_def)
qed

section \<open>Reachable tables are well formed\<close>

lemma wf_db_Nil: "wf_db U []"
  by (simp add: wf_db_def)

lemma wf_db_create:
  assumes "wf_db U db" and "SwiftCodeCreate_validate U body = Inr swift"
    and "create_swift U commit db swift = (res, db')"
  shows "wf_db U db'"
proof (cases res)
  case None
  with assms(3) have "db' = db" by (auto dest: create_swift_None)
  with assms(1) show ?thesis by simp
next
  case (Some r)
  from assms(2) have p: "SWIFT_CODE_PATTERN (swift_code_in body)"
    and s: "swift = body\<lparr>country_iso2_in := upper U (country_iso2_in body),
                 country_name_in := upper U (country_name_in body)\<rparr>"
    by (simp_all add: SwiftCodeCreate_validate_iff)
  from p have up: "upper U (swift_code_in body) = swift_code_in body"
    by (rule upper_SWIFT_CODE_PATTERN)
  from assms(3) Some have fresh: "\<not> list_ex (\<lambda>x. swift_code x = swift_code_in body) db"
    and r: "r = expected_record U body" and d: "db' = db @ [r]"
    by (auto simp: create_swift_def Let_def s up upper_idem expected_record_def
        split: if_splits commit_outcome.splits)
  from r have "wf_row U r" using wf_row_expected_record [OF assms(2)] by simp
  moreover from fresh r have "swift_code r \<notin> swift_code ` set db"
    by (auto simp: list_ex_iff expected_record_def)
  ultimately show ?thesis using assms(1) d by (simp add: wf_db_def)
qed

lemma wf_db_delete:
  assumes "wf_db U db" and "delete_swift U commit db code = (res, db')"
  shows "wf_db U db'"
proof -
  have "wf_db U (filter P db)" for P
    using assms(1) by (simp add: wf_db_def list_all_iff distinct_map_filter)
  with assms show ?thesis
    by (auto simp: delete_swift_def split: option.splits commit_outcome.splits)
qed

lemma wf_db_row: "wf_db U db \<Longrightarrow> r \<in> set db \<Longrightarrow> wf_row U r"
  by (simp add: wf_db_def list_all_iff)

lemma wf_row_upper_code: "wf_row U r \<Longrightarrow> upper U (swift_code r) = swift_code r"
  by (simp add: wf_row_def upper_SWIFT_CODE_PATTERN)

lemma wf_row_length: "wf_row U r \<Longrightarrow> 8 \<le> length (swift_code r)"
  by (auto simp: wf_row_def SWIFT_CODE_PATTERN_def)

lemma get_swift_by_code_wf:
  assumes "wf_db U db" and "H \<in> set db"
  shows "get_swift_by_code U db (swift_code H) = Some H"
proof -
  from assms have "upper U (swift_code H) = swift_code H"
    by (simp add: wf_db_row wf_row_upper_code)
  with assms show ?thesis
    by (simp add: get_swift_by_code_distinct wf_db_def)
qed

lemma wf_row_prefix:
  assumes "wf_row U H"
  shows "list_all (\<lambda>c. c \<in> set (ascii_uppercase @ digits)) (take 8 (swift_code H))"
proof -
  from assms have "list_all (\<lambda>c. c \<in> set (ascii_uppercase @ digits)) (swift_code H)"
    by (simp add: wf_row_def SWIFT_CODE_PATTERN_def)
  then show ?thesis
    by (auto simp: list_all_iff dest: in_set_takeD)
qed

lemma get_branches_by_hq_prefix_wf:
  assumes "wf_row U H"
  shows "get_branches_by_hq_prefix U db (take 8 (swift_code H))
           = filter (\<lambda>B. take 8 (swift_code B) = take 8 (swift_code H)
                          \<and> is_headquarter B = False) db"
proof -
  note a = wf_row_prefix [OF assms]
  from assms have l: "length (take 8 (swift_code H)) = 8"
    using wf_row_length [of U H] by simp
  from a have u: "upper U (take 8 (swift_code H)) = take 8 (swift_code H)"
    by (rule upper_upper_alnum)
  have "list_all (\<lambda>c. c \<noteq> 37 \<and> c \<noteq> 95) (take 8 (swift_code H))"
    unfolding list_all_iff
  proof
    fix c
    assume "c \<in> set (take 8 (swift_code H))"
    with a have "c \<in> set (ascii_uppercase @ digits)"
      by (simp add: list_all_iff)
    then show "c \<noteq> 37 \<and> c \<noteq> 95" by (rule alnum_no_wildcard)
  qed
  then have s: "startswith v (take 8 (swift_code H))
                  = (take 8 v = take 8 (swift_code H))" for v
    using l by (simp add: startswith_literal)
  from l u s show ?thesis
    by (simp add: get_branches_by_hq_prefix_def)
qed

lemma branches_prefix_wf:
  assumes "wf_row U H" and "is_headquarter H"
  shows "branches_prefix db H
           = filter (\<lambda>B. take 8 (swift_code B) = take 8 (swift_code H)
                          \<and> is_headquarter B = False) db"
  using assms by (simp add: branches_prefix_def branch_of_prefix_def wf_row_def)

lemma read_swift_code_headquarter:
  assumes "wf_db U db" and "H \<in> set db" and "is_headquarter H"
  shows "read_swift_code U db (swift_code H)
           = Inr (Headquarter_with_branches H
                    (map SwiftCodeBranch_model_validate (branches_prefix db H)))"
proof -
  from assms have w: "wf_row U H" by (simp add: wf_db_row)
  then have p: "SWIFT_CODE_PATTERN (swift_code H)" by (simp add: wf_row_def)
  from assms have g: "get_swift_by_code U db (swift_code H) = Some H"
    by (simp add: get_swift_by_code_wf)
  from w have v: "SwiftCode_model_validate U H = Inr H"
    by (rule SwiftCode_model_validate_wf)
  from p g v assms(3) show ?thesis
    by (simp add: read_swift_code_def Let_def get_branches_by_hq_prefix_wf [OF w]
        branches_prefix_wf [OF w assms(3)])
qed


text \<open>
  Claim C2, as amended. For every stored headquarters record \<open>H\<close> of a well-formed
  table, the lookup of its code returns the headquarters view whose \<open>branches\<close> are
  exactly the stored records \<open>B\<close> with \<open>B.code[0:8] = H.code[0:8]\<close> and
  \<open>B.isHeadquarters = false\<close>, where the code of \<open>H\<close> ends in \<open>XXX\<close> and has length
  8 or 11: the length of the code of \<open>H\<close> is not required to be 11. When it is 11,
  these are the branches of the specification's relationship. For the data set of the
  scenario the lookup of \<open>ABCDEFGHXXX\<close> returns the two branches \<open>ABCDEFGHB01\<close> and
  \<open>ABCDEFGHB02\<close> and not \<open>ABCDEFGIB01\<close>.
\<close>

theorem headquarters_view_lists_prefix_branches:
  assumes "wf_db U db" and "H \<in> set db" and "is_headquarter H"
  shows "read_swift_code U db (swift_code H)
           = Inr (Headquarter_with_branches H
                    (map SwiftCodeBranch_model_validate (branches_prefix db H)))
       \<and> (B \<in> set (branches_prefix db H) \<longleftrightarrow>
            B \<in> set db \<and> endswith (swift_code H) (str ''XXX'')
            \<and> take 8 (swift_code B) = take 8 (swift_code H) \<and> is_headquarter B = False)
       \<and> (length (swift_code H) = 8 \<or> length (swift_code H) = 11)
       \<and> (length (swift_code H) = 11 \<longrightarrow> branches_prefix db H = branches_spec db H)"
proof -
  from assms have w: "wf_row U H" by (simp add: wf_db_row)
  have 1: "B \<in> set (branches_prefix db H) \<longleftrightarrow>
            B \<in> set db \<and> endswith (swift_code H) (str ''XXX'')
            \<and> take 8 (swift_code B) = take 8 (swift_code H) \<and> is_headquarter B = False"
    by (auto simp: branches_prefix_def branch_of_prefix_def)
  from w have 2: "length (swift_code H) = 8 \<or> length (swift_code H) = 11"
    by (simp add: wf_row_def SWIFT_CODE_PATTERN_def)
  have 3: "length (swift_code H) = 11 \<longrightarrow> branches_prefix db H = branches_spec db H"
    by (simp add: branches_prefix_def branches_spec_def branch_of_prefix_def branch_of_spec_def)
  from read_swift_code_headquarter [OF assms] 1 2 3 show ?thesis by blast
qed

lemma wf_sample_db: "wf_db U sample_db"
  by (simp add: wf_db_def wf_row_def SWIFT_CODE_PATTERN_def sample_defs string_defs)

lemma sample_branches:
  "branches_prefix sample_db hq_ABCDEFGHXXX = [branch_ABCDEFGHB01, branch_ABCDEFGHB02]"
  by (simp add: branches_prefix_def branch_of_prefix_def sample_defs string_defs)

theorem headquarters_view_lists_prefix_branches_witness:
  "wf_db sample_table sample_db \<and> hq_ABCDEFGHXXX \<in> set sample_db \<and> is_headquarter hq_ABCDEFGHXXX
   \<and> read_swift_code sample_table sample_db (str ''ABCDEFGHXXX'')
       = Inr (Headquarter_with_branches hq_ABCDEFGHXXX
                [SwiftCodeBranch_model_validate branch_ABCDEFGHB01,
                 SwiftCodeBranch_model_validate branch_ABCDEFGHB02])
   \<and> other_ABCDEFGIB01 \<in> set sample_db
   \<and> other_ABCDEFGIB01 \<notin> set (branches_prefix sample_db hq_ABCDEFGHXXX)
   \<and> branches_spec sample_db hq_ABCDEFGHXXX = [branch_ABCDEFGHB01, branch_ABCDEFGHB02]"
proof -
  have m: "hq_ABCDEFGHXXX \<in> set sample_db" "other_ABCDEFGIB01 \<in> set sample_db"
    by (simp_all add: sample_db_def)
  have h: "is_headquarter hq_ABCDEFGHXXX" by (simp add: hq_ABCDEFGHXXX_def str_def)
  have c: "swift_code hq_ABCDEFGHXXX = str ''ABCDEFGHXXX''" by (simp add: hq_ABCDEFGHXXX_def str_def)
  have n: "other_ABCDEFGIB01 \<notin> set [branch_ABCDEFGHB01, branch_ABCDEFGHB02]"
    by (simp add: sample_defs str_def)
  from headquarters_view_lists_prefix_branches [OF wf_sample_db [of sample_table] m(1) h, of other_ABCDEFGIB01]
  show ?thesis
    using wf_sample_db [of sample_table] m h n by (simp add: sample_branches c str_def)
qed


text \<open>
  The claim as stated fails for a headquarters whose code has eight characters:
  \<open>ABCDEXXX\<close> is stored as a headquarters, the lookup lists \<open>ABCDEXXXB01\<close> as its
  branch, and the specification's relationship, which asks for length 11, gives it no
  branch.
\<close>

lemma wf_short_hq_db: "wf_db U short_hq_db"
  by (simp add: wf_db_def wf_row_def SWIFT_CODE_PATTERN_def short_hq_db_def hq_ABCDEXXX_def
      branch_ABCDEXXXB01_def string_defs)

theorem short_headquarters_code_has_branches:
  "wf_db sample_table short_hq_db \<and> hq_ABCDEXXX \<in> set short_hq_db \<and> is_headquarter hq_ABCDEXXX
   \<and> read_swift_code sample_table short_hq_db (str ''ABCDEXXX'')
       = Inr (Headquarter_with_branches hq_ABCDEXXX
                [SwiftCodeBranch_model_validate branch_ABCDEXXXB01])
   \<and> branches_spec short_hq_db hq_ABCDEXXX = []"
proof -
  have "read_swift_code sample_table short_hq_db (str ''ABCDEXXX'')
       = Inr (Headquarter_with_branches hq_ABCDEXXX
                [SwiftCodeBranch_model_validate branch_ABCDEXXXB01])"
    using read_swift_code_headquarter [OF wf_short_hq_db [of sample_table], of hq_ABCDEXXX]
    by (simp add: branches_prefix_def branch_of_prefix_def short_hq_db_def hq_ABCDEXXX_def
      branch_ABCDEXXXB01_def string_defs)
  moreover have "branches_spec short_hq_db hq_ABCDEXXX = []"
    by (simp add: branches_spec_def branch_of_spec_def short_hq_db_def hq_ABCDEXXX_def str_def
      branch_ABCDEXXXB01_def)
  ultimately show ?thesis
    using wf_short_hq_db by (simp add: short_hq_db_def hq_ABCDEXXX_def str_def)
qed

section \<open>Listing by country\<close>



lemma country_rows_upper: "country_rows U db (upper U country) = country_rows U db country"
  by (simp add: country_rows_def upper_idem)

lemma get_swifts_by_country_upper:
  "get_swifts_by_country U db (upper U country) skip limit
     = get_swifts_by_country U db country skip limit"
  by (simp add: get_swifts_by_country_def upper_idem)

lemma get_swifts_by_country_subset:
  assumes "get_swifts_by_country U db country skip limit = Inr page" and "r \<in> set page"
  shows "r \<in> set db \<and> country_iso2 r = upper U country"
  using assms
  by (auto simp: get_swifts_by_country_def split: if_splits dest!: in_set_takeD in_set_dropD)




lemma pattern_AP: "COUNTRY_CODE_PATTERN (str ''AP'')"
  by (simp add: COUNTRY_CODE_PATTERN_def string_defs)






section \<open>The country name of a listing\<close>

lemma read_swifts_by_country_Inr:
  assumes "read_swifts_by_country U db C skip limit = Inr resp"
  shows "(case get_swifts_by_country U db C (nat skip) (nat limit) of
            Inr (first_model # rest) \<Rightarrow> list_country_name resp = country_name first_model
          | Inr [] \<Rightarrow> (\<exists>r. find (\<lambda>r. country_iso2 r = upper U C) db = Some r
                            \<and> list_country_name resp = country_name r)
          | Inl e \<Rightarrow> False)"
proof (cases "get_swifts_by_country U db C (nat skip) (nat limit)")
  case (Inl e)
  with assms show ?thesis
    by (auto simp: read_swifts_by_country_def Let_def get_swifts_by_country_upper
        split: if_splits)
next
  case (Inr page)
  show ?thesis
  proof (cases page)
    case Nil
    with assms Inr show ?thesis
      by (auto simp: read_swifts_by_country_def Let_def get_swifts_by_country_upper
          split: if_splits option.splits)
  next
    case (Cons first_model rest)
    with assms Inr show ?thesis
      by (auto simp: read_swifts_by_country_def Let_def get_swifts_by_country_upper
          split: if_splits sum.splits)
  qed
qed

lemma wf_branch_rows: "wf_row U branch_ABCDEFGHB01 \<and> wf_row U branch_ABCDEFGHB02"
  by (simp add: wf_row_def SWIFT_CODE_PATTERN_def sample_defs string_defs)

lemma upper_AP: "upper U (str ''AP'') = str ''AP''"
  using pattern_AP by (simp add: COUNTRY_CODE_PATTERN_def upper_COUNTRY_CODE)

lemma two_rows_page:
  "read_swifts_by_country U two_rows (str ''AP'') 0 1
     = Inr \<lparr>list_country_iso2 = str ''AP'', list_country_name = str ''APILAND'',
            swift_codes = [branch_ABCDEFGHB01]\<rparr>"
proof -
  have "get_swifts_by_country U two_rows (str ''AP'') 0 (Suc 0) = Inr [branch_ABCDEFGHB01]"
    by (simp add: get_swifts_by_country_def two_rows_def sample_defs string_defs)
  moreover have "SwiftCode_model_validate U branch_ABCDEFGHB01 = Inr branch_ABCDEFGHB01"
    using wf_branch_rows by (simp add: SwiftCode_model_validate_wf)
  moreover have "country_name branch_ABCDEFGHB01 = str ''APILAND''"
    by (simp add: branch_ABCDEFGHB01_def)
  ultimately show ?thesis
    using pattern_AP by (simp add: read_swifts_by_country_def Let_def upper_AP)
qed

lemma two_rows_swapped_page:
  "read_swifts_by_country U two_rows_swapped (str ''AP'') 0 1
     = Inr \<lparr>list_country_iso2 = str ''AP'', list_country_name = str ''OTHER NAME'',
            swift_codes = [branch_ABCDEFGHB02]\<rparr>"
proof -
  have "get_swifts_by_country U two_rows_swapped (str ''AP'') 0 (Suc 0)
          = Inr [branch_ABCDEFGHB02]"
    by (simp add: get_swifts_by_country_def two_rows_swapped_def sample_defs string_defs)
  moreover have "SwiftCode_model_validate U branch_ABCDEFGHB02 = Inr branch_ABCDEFGHB02"
    using wf_branch_rows by (simp add: SwiftCode_model_validate_wf)
  moreover have "country_name branch_ABCDEFGHB02 = str ''OTHER NAME''"
    by (simp add: branch_ABCDEFGHB02_def)
  ultimately show ?thesis
    using pattern_AP by (simp add: read_swifts_by_country_def Let_def upper_AP)
qed

lemma two_rows_same_set: "set two_rows = set two_rows_swapped"
  by (auto simp: two_rows_def two_rows_swapped_def)

text \<open>
  Claim C10. The country name of a successful listing is copied from a stored record
  with that country code: from the first record of the page when the page is not
  empty, otherwise from the first record of that country that the table yields. There
  is no other source for the name: the same two records of country \<open>AP\<close>, carrying
  different country names, give the name \<open>APILAND\<close> when the table yields them in one
  order and \<open>OTHER NAME\<close> when it yields them in the other.
\<close>

theorem country_name_copied_from_first_record:
  "(read_swifts_by_country U db C skip limit = Inr resp \<longrightarrow>
      (\<exists>r\<in>set db. country_iso2 r = upper U C \<and> list_country_name resp = country_name r)
      \<and> (case get_swifts_by_country U db C (nat skip) (nat limit) of
            Inr (first_model # rest) \<Rightarrow> list_country_name resp = country_name first_model
          | Inr [] \<Rightarrow> (\<exists>r. find (\<lambda>r. country_iso2 r = upper U C) db = Some r
                            \<and> list_country_name resp = country_name r)
          | Inl e \<Rightarrow> False))
   \<and> set two_rows = set two_rows_swapped
   \<and> map_sum id list_country_name (read_swifts_by_country U two_rows (str ''AP'') 0 1)
       = Inr (str ''APILAND'')
   \<and> map_sum id list_country_name (read_swifts_by_country U two_rows_swapped (str ''AP'') 0 1)
       = Inr (str ''OTHER NAME'')"
proof (intro conjI impI)
  assume a: "read_swifts_by_country U db C skip limit = Inr resp"
  note c = read_swifts_by_country_Inr [OF a]
  then show "case get_swifts_by_country U db C (nat skip) (nat limit) of
            Inr (first_model # rest) \<Rightarrow> list_country_name resp = country_name first_model
          | Inr [] \<Rightarrow> (\<exists>r. find (\<lambda>r. country_iso2 r = upper U C) db = Some r
                            \<and> list_country_name resp = country_name r)
          | Inl e \<Rightarrow> False" .
  show "\<exists>r\<in>set db. country_iso2 r = upper U C \<and> list_country_name resp = country_name r"
  proof (cases "get_swifts_by_country U db C (nat skip) (nat limit)")
    case (Inl e)
    with c show ?thesis by simp
  next
    case (Inr page)
    show ?thesis
    proof (cases page)
      case Nil
      with c Inr obtain r where "find (\<lambda>r. country_iso2 r = upper U C) db = Some r"
        "list_country_name resp = country_name r" by auto
      then show ?thesis by (auto simp: find_Some_iff)
    next
      case (Cons first_model rest)
      with Inr have "first_model \<in> set db \<and> country_iso2 first_model = upper U C"
        using get_swifts_by_country_subset [of U db C "nat skip" "nat limit" page first_model]
        by simp
      with c Inr Cons show ?thesis by auto
    qed
  qed
qed (simp_all add: two_rows_same_set two_rows_page two_rows_swapped_page)

theorem country_name_copied_from_first_record_witness:
  "read_swifts_by_country sample_table sample_db (str ''AP'') 1 2
     = Inr \<lparr>list_country_iso2 = str ''AP'', list_country_name = str ''APILAND'',
            swift_codes = [branch_ABCDEFGHB01, branch_ABCDEFGHB02]\<rparr>
   \<and> get_swifts_by_country sample_table sample_db (str ''AP'') (nat 1) (nat 2)
       = Inr [branch_ABCDEFGHB01, branch_ABCDEFGHB02]
   \<and> country_name branch_ABCDEFGHB01 = str ''APILAND''
   \<and> country_name branch_ABCDEFGHB02 = str ''OTHER NAME''"
proof -
  have g: "get_swifts_by_country sample_table sample_db (str ''AP'') (Suc 0) 2
       = Inr [branch_ABCDEFGHB01, branch_ABCDEFGHB02]"
    by (simp add: get_swifts_by_country_def sample_defs string_defs)
  have v: "SwiftCode_model_validate sample_table branch_ABCDEFGHB01 = Inr branch_ABCDEFGHB01"
    "SwiftCode_model_validate sample_table branch_ABCDEFGHB02 = Inr branch_ABCDEFGHB02"
    using wf_branch_rows [of sample_table] by (simp_all add: SwiftCode_model_validate_wf)
  have n: "country_name branch_ABCDEFGHB01 = str ''APILAND''"
    "country_name branch_ABCDEFGHB02 = str ''OTHER NAME''"
    by (simp_all add: branch_ABCDEFGHB01_def branch_ABCDEFGHB02_def)
  have r: "read_swifts_by_country sample_table sample_db (str ''AP'') 1 2
     = Inr \<lparr>list_country_iso2 = str ''AP'',
            list_country_name = country_name branch_ABCDEFGHB01,
            swift_codes = [branch_ABCDEFGHB01, branch_ABCDEFGHB02]\<rparr>"
    using pattern_AP g v
    by (simp add: read_swifts_by_country_def Let_def upper_AP)
  from country_name_copied_from_first_record [of sample_table sample_db "str ''AP''" 1 2
      "\<lparr>list_country_iso2 = str ''AP'', list_country_name = country_name branch_ABCDEFGHB01,
            swift_codes = [branch_ABCDEFGHB01, branch_ABCDEFGHB02]\<rparr>"] r g n
  show ?thesis by simp
qed

section \<open>Pagination\<close>






end
